theory Spec2Isabelle
  imports Main "HOL-Library.Multiset"
begin

section \<open>JavaScript values used by the program\<close>

text \<open>
  A \<^verbatim>\<open>Date\<close> is modelled by its time value: \<open>Some t\<close> is the instant \<open>t\<close> milliseconds
  after the epoch, \<open>None\<close> is an Invalid Date, whose \<^verbatim>\<open>getTime()\<close> is NaN. Time values are
  integers below \<open>2^53\<close>, so the sign of a difference of two of them is exact.
  The result of a comparator is a number or NaN (\<open>None\<close>).
\<close>

type_synonym js_date = "int option"

text \<open>A thrown value: an \<^verbatim>\<open>Error\<close> object with its message, or any other value.\<close>

datatype thrown = Error string | NonError

text \<open>
  \<^verbatim>\<open>a || b\<close> on an optional string: the left operand is falsy when it is absent or empty.
\<close>

definition truthy :: "string option \<Rightarrow> bool" where
  "truthy s = (case s of None \<Rightarrow> False | Some t \<Rightarrow> t \<noteq> [])"

definition or_else :: "string option \<Rightarrow> string option \<Rightarrow> string option" where
  "or_else a b = (if truthy a then a else b)"

definition or_null :: "string option \<Rightarrow> string option" where
  "or_null a = (if truthy a then a else None)"

text \<open>
  \<^verbatim>\<open>xs.slice(0, e)\<close> for an integer \<open>e\<close>: a negative end counts from the end of the array.
\<close>

definition js_slice0 :: "int \<Rightarrow> 'a list \<Rightarrow> 'a list" where
  "js_slice0 e xs =
     (if e < 0 then take (nat (max (int (length xs) + e) 0)) xs
      else take (nat (min e (int (length xs)))) xs)"

text \<open>
  \<^verbatim>\<open>xs.sort(c)\<close>: the comparator's result is read as a number, NaN counting as \<open>+0\<close>;
  the sort is stable. For a consistent comparator every stable sort returns the same
  list, and so does the model. For an inconsistent one (a comparator that returns NaN for
  some pairs only) the language leaves the order to the engine; the model fixes insertion
  from the right, which need not be the order of a given engine, and no property below
  depends on the order in that case.
\<close>

definition sortCompare :: "('a \<Rightarrow> 'a \<Rightarrow> int option) \<Rightarrow> 'a \<Rightarrow> 'a \<Rightarrow> int" where
  "sortCompare c x y = (case c x y of None \<Rightarrow> 0 | Some v \<Rightarrow> v)"

fun js_insert :: "('a \<Rightarrow> 'a \<Rightarrow> int option) \<Rightarrow> 'a \<Rightarrow> 'a list \<Rightarrow> 'a list" where
  "js_insert c x [] = [x]"
| "js_insert c x (y # ys) =
     (if sortCompare c x y \<le> 0 then x # y # ys else y # js_insert c x ys)"

definition js_sort :: "('a \<Rightarrow> 'a \<Rightarrow> int option) \<Rightarrow> 'a list \<Rightarrow> 'a list" where
  "js_sort c xs = foldr (js_insert c) xs []"

text \<open>
  The Date built-ins the program calls besides the constructor. \<open>localTZA\<close> is the offset
  of the local time zone in milliseconds (LocalTZA of the language definition): at a UTC
  instant when the flag is true, at a local time value when it is false. \<open>toISOString\<close>
  gives the ISO-8601 text of a valid time value. Both belong to the engine and to the
  zone of the host, and are parameters.
\<close>

record DateLib =
  localTZA :: "int \<Rightarrow> bool \<Rightarrow> int"
  toISOString :: "int \<Rightarrow> string"

text \<open>A time value outside the range of Date is an Invalid Date.\<close>

definition timeClip :: "int \<Rightarrow> js_date" where
  "timeClip t = (if \<bar>t\<bar> \<le> 8640000000000000 then Some t else None)"

text \<open>
  \<^verbatim>\<open>d.setDate(d.getDate() - n)\<close> on a valid Date with time value \<open>t\<close>, for an integer \<open>n\<close>:
  the local time value moves back \<open>n\<close> days of 86400000 ms (the same wall-clock time,
  \<open>n\<close> calendar days earlier), is read back as a UTC instant with the offset in force at
  that local time, and is clipped.
\<close>

definition setDateBack :: "DateLib \<Rightarrow> int \<Rightarrow> int \<Rightarrow> js_date" where
  "setDateBack lib t n =
     (let localValue = t + localTZA lib t True - n * 86400000
      in timeClip (localValue - localTZA lib localValue False))"

text \<open>
  The comparison of two TEXT values in the store (collation BINARY): byte by byte, a
  proper prefix first.
\<close>

fun text_less :: "string \<Rightarrow> string \<Rightarrow> bool" where
  "text_less [] [] = False"
| "text_less [] (y # ys) = True"
| "text_less (x # xs) [] = False"
| "text_less (x # xs) (y # ys) = ((of_char x :: nat) < of_char y \<or> (x = y \<and> text_less xs ys))"

text \<open>\<^verbatim>\<open>text.replace(/c/g, s)\<close> for a single character \<open>c\<close>.\<close>

definition replace_all :: "char \<Rightarrow> string \<Rightarrow> string \<Rightarrow> string" where
  "replace_all c s text = concat (map (\<lambda>x. if x = c then s else [x]) text)"

section \<open>NewsletterGenerator.escapeHtml\<close>

definition escapeHtml :: "string \<Rightarrow> string" where
  "escapeHtml text =
     replace_all (CHR 0x27) ''&#039;''
       (replace_all (CHR 0x22) ''&quot;''
         (replace_all (CHR ''>'') ''&gt;''
           (replace_all (CHR ''<'') ''&lt;''
             (replace_all (CHR ''&'') ''&amp;'' text))))"

text \<open>The entity each character stands for after escaping, one character at a time.\<close>

definition entity :: "char \<Rightarrow> string" where
  "entity x =
     (if x = CHR ''&'' then ''&amp;''
      else if x = CHR ''<'' then ''&lt;''
      else if x = CHR ''>'' then ''&gt;''
      else if x = CHR 0x22 then ''&quot;''
      else if x = CHR 0x27 then ''&#039;''
      else [x])"

definition html_special :: "char set" where
  "html_special = {CHR ''<'', CHR ''>'', CHR 0x22, CHR 0x27}"

section \<open>types.ts\<close>

text \<open>The numbers of the configuration are taken to be integers.\<close>

record FeedConfig =
  name :: string
  url :: string
  category :: string
  enabled :: bool

record NewsletterConfig =
  title :: string
  description :: string
  author :: string
  maxItemsPerFeed :: int
  maxTotalItems :: int
  retentionDays :: int

record Config =
  newsletter :: NewsletterConfig
  feeds :: "FeedConfig list"
  categories :: "string list"

record FeedItem =
  id :: string
  title :: string
  link :: string
  description :: string
  pubDate :: js_date
  feedName :: string
  category :: string
  author :: "string option"

record FetchResult =
  feedName :: string
  success :: bool
  items :: "FeedItem list"
  error :: "string option"

record GenerationStats =
  totalFeeds :: nat
  successfulFeeds :: nat
  failedFeeds :: nat
  newItems :: nat
  duplicatesRemoved :: nat
  generatedAt :: int

section \<open>database.ts: DatabaseManager\<close>

text \<open>
  The three tables, as lists of rows in insertion order. The store keeps every timestamp
  as the ISO-8601 text that \<^verbatim>\<open>toISOString()\<close> gives for the reading of the clock; a row of
  the model keeps the reading itself, in milliseconds, and the text is \<open>toISOString\<close> of
  it wherever the store compares texts. The columns \<open>created_at\<close> and the AUTOINCREMENT
  \<open>id\<close> are never read and are left out.
\<close>

record processed_items_row =
  url :: string
  feed_name :: string
  processed_at :: int
  title :: "string option"

record feed_stats_row =
  feed_name :: string
  fetch_date :: int
  items_fetched :: nat
  items_new :: nat
  success :: nat
  error_message :: "string option"

record generation_history_row =
  generated_at :: int
  total_feeds :: nat
  successful_feeds :: nat
  failed_feeds :: nat
  new_items :: nat
  duplicates_removed :: nat

record Database =
  processed_items :: "processed_items_row list"
  feed_stats :: "feed_stats_row list"
  generation_history :: "generation_history_row list"

text \<open>The argument objects of markMultipleAsProcessed.\<close>

record MarkItem =
  url :: string
  feedName :: string
  title :: "string option"

text \<open>
  \<^verbatim>\<open>INSERT OR IGNORE INTO processed_items\<close>: \<open>url\<close> is the primary key, and a row whose key
  is already in the table is skipped.
\<close>

definition insert_or_ignore ::
  "processed_items_row \<Rightarrow> processed_items_row list \<Rightarrow> processed_items_row list" where
  "insert_or_ignore r rows =
     (if processed_items_row.url r \<in> set (map processed_items_row.url rows) then rows
      else rows @ [r])"

definition isProcessed :: "Database \<Rightarrow> string \<Rightarrow> bool" where
  "isProcessed db u = (u \<in> set (map processed_items_row.url (processed_items db)))"

definition markAsProcessed ::
  "int \<Rightarrow> string \<Rightarrow> string \<Rightarrow> string option \<Rightarrow> Database \<Rightarrow> Database" where
  "markAsProcessed now u fname t db =
     db\<lparr>processed_items :=
          insert_or_ignore
            \<lparr>processed_items_row.url = u, feed_name = fname, processed_at = now,
             title = or_null t\<rparr>
            (processed_items db)\<rparr>"

text \<open>The loop of the transaction: one \<^verbatim>\<open>stmt.run\<close> per item, all with the same \<open>now\<close>.\<close>

fun insertMany :: "int \<Rightarrow> MarkItem list \<Rightarrow> processed_items_row list \<Rightarrow> processed_items_row list" where
  "insertMany now [] rows = rows"
| "insertMany now (item # rest) rows =
     insertMany now rest
       (insert_or_ignore
          \<lparr>processed_items_row.url = MarkItem.url item, feed_name = MarkItem.feedName item,
           processed_at = now, title = or_null (MarkItem.title item)\<rparr>
          rows)"

definition markMultipleAsProcessed :: "int \<Rightarrow> MarkItem list \<Rightarrow> Database \<Rightarrow> Database" where
  "markMultipleAsProcessed now its db =
     db\<lparr>processed_items := insertMany now its (processed_items db)\<rparr>"

definition getProcessedUrls :: "Database \<Rightarrow> string set" where
  "getProcessedUrls db = set (map processed_items_row.url (processed_items db))"

definition getProcessedCount :: "Database \<Rightarrow> nat" where
  "getProcessedCount db = length (processed_items db)"

text \<open>
  The cutoff of cleanOldEntries: the clock's reading \<open>t\<close> after
  \<^verbatim>\<open>setDate(getDate() - retentionDays)\<close>, an Invalid Date when the result leaves the range
  of Date.
\<close>

definition cutoffDate :: "DateLib \<Rightarrow> int \<Rightarrow> int \<Rightarrow> js_date" where
  "cutoffDate lib t retention = setDateBack lib t retention"

text \<open>\<^verbatim>\<open>processed_at < ?\<close> with the text of the cutoff \<open>c\<close> as the parameter.\<close>

definition isoBefore :: "DateLib \<Rightarrow> int \<Rightarrow> int \<Rightarrow> bool" where
  "isoBefore lib a c = text_less (toISOString lib a) (toISOString lib c)"

text \<open>
  \<^verbatim>\<open>cutoffDate.toISOString()\<close> raises a RangeError on an Invalid Date, before the statement
  runs; otherwise the statement deletes the rows whose text sorts before the cutoff's and
  \<open>changes\<close> is their number.
\<close>

definition cleanOldEntries :: "DateLib \<Rightarrow> int \<Rightarrow> int \<Rightarrow> Database \<Rightarrow> thrown + nat \<times> Database" where
  "cleanOldEntries lib t retention db =
     (case cutoffDate lib t retention of
        None \<Rightarrow> Inl (Error ''Invalid time value'')
      | Some c \<Rightarrow>
          (let kept = filter (\<lambda>r. \<not> isoBefore lib (processed_at r) c) (processed_items db)
           in Inr (length (processed_items db) - length kept, db\<lparr>processed_items := kept\<rparr>)))"

definition recordFeedStats ::
  "int \<Rightarrow> string \<Rightarrow> nat \<Rightarrow> nat \<Rightarrow> bool \<Rightarrow> string option \<Rightarrow> Database \<Rightarrow> Database" where
  "recordFeedStats now fname itemsFetched itemsNew succ errorMessage db =
     db\<lparr>feed_stats := feed_stats db @
          [\<lparr>feed_stats_row.feed_name = fname, fetch_date = now, items_fetched = itemsFetched,
            items_new = itemsNew, success = (if succ then 1 else 0),
            error_message = or_null errorMessage\<rparr>]\<rparr>"

definition recordGeneration :: "int \<Rightarrow> nat \<Rightarrow> nat \<Rightarrow> nat \<Rightarrow> nat \<Rightarrow> nat \<Rightarrow> Database \<Rightarrow> Database" where
  "recordGeneration now nTotal nOk nFailed nNew nDups db =
     db\<lparr>generation_history := generation_history db @
          [\<lparr>generated_at = now, total_feeds = nTotal, successful_feeds = nOk,
            failed_feeds = nFailed, new_items = nNew, duplicates_removed = nDups\<rparr>]\<rparr>"

section \<open>feedFetcher.ts: FeedFetcher\<close>

text \<open>What rss-parser returns for a feed: the fields the program reads, each optional.\<close>

record ParserItem =
  guid :: "string option"
  link :: "string option"
  title :: "string option"
  pubDate :: "string option"
  contentSnippet :: "string option"
  content :: "string option"
  summary :: "string option"
  creator :: "string option"
  author :: "string option"

record ParserOutput =
  items :: "ParserItem list"
  title :: "string option"

text \<open>
  The world outside the program, read during one run: the outcome of
  \<^verbatim>\<open>parser.parseURL\<close> for each URL (a feed, or a thrown network, parse or timeout error),
  the \<^verbatim>\<open>Date\<close> constructor on a string (\<open>None\<close> for text that is no date), the MD5 digest,
  the clock and the other Date built-ins. \<^verbatim>\<open>sanitizeHtml\<close>, the regular-expression clean-up of a description, is
  taken as a parameter as well: no property below depends on the text it returns.
\<close>

record Env =
  parseURL :: "string \<Rightarrow> thrown + ParserOutput"
  parseDate :: "string \<Rightarrow> js_date"
  md5 :: "string \<Rightarrow> string"
  sanitizeHtml :: "string option \<Rightarrow> string"
  now :: int
  dates :: DateLib

text \<open>A template literal prints an absent value as \<^verbatim>\<open>undefined\<close>.\<close>

definition js_string :: "string option \<Rightarrow> string" where
  "js_string s = (case s of None \<Rightarrow> ''undefined'' | Some t \<Rightarrow> t)"

definition generateItemId :: "Env \<Rightarrow> ParserItem \<Rightarrow> string \<Rightarrow> string" where
  "generateItemId env item fname =
     md5 env
       (js_string
          (or_else (guid item)
             (or_else (ParserItem.link item)
                (Some (fname @ ''-'' @ js_string (ParserItem.title item) @ ''-'' @
                       js_string (ParserItem.pubDate item))))))"

text \<open>One round of the loop over \<^verbatim>\<open>feed.items\<close>: \<open>None\<close> is the \<^verbatim>\<open>continue\<close>.\<close>

definition toFeedItem :: "Env \<Rightarrow> FeedConfig \<Rightarrow> ParserOutput \<Rightarrow> ParserItem \<Rightarrow> FeedItem option" where
  "toFeedItem env cfg feed item =
     (case ParserItem.link item of
        None \<Rightarrow> None
      | Some l \<Rightarrow>
          if l = [] then None
          else Some
            \<lparr>FeedItem.id = generateItemId env item (name cfg),
             title = js_string (or_else (ParserItem.title item) (Some ''Untitled'')),
             link = l,
             description =
               sanitizeHtml env
                 (or_else (contentSnippet item) (or_else (content item) (summary item))),
             pubDate =
               (case ParserItem.pubDate item of
                  None \<Rightarrow> Some (now env)
                | Some d \<Rightarrow> if d = [] then Some (now env) else parseDate env d),
             feedName = name cfg,
             category = FeedConfig.category cfg,
             author =
               or_else (creator item) (or_else (ParserItem.author item) (ParserOutput.title feed))\<rparr>)"

text \<open>The body of the \<^verbatim>\<open>try\<close> block: it throws what parseURL throws.\<close>

definition fetchFeed_try :: "Env \<Rightarrow> FeedConfig \<Rightarrow> thrown + FetchResult" where
  "fetchFeed_try env cfg =
     (case parseURL env (FeedConfig.url cfg) of
        Inl e \<Rightarrow> Inl e
      | Inr feed \<Rightarrow>
          Inr \<lparr>FetchResult.feedName = name cfg, success = True,
               items = List.map_filter (toFeedItem env cfg feed) (ParserOutput.items feed),
               error = None\<rparr>)"

definition errorMessage :: "thrown \<Rightarrow> string" where
  "errorMessage e = (case e of Error m \<Rightarrow> m | NonError \<Rightarrow> ''Unknown error'')"

definition fetchFeed :: "Env \<Rightarrow> FeedConfig \<Rightarrow> FetchResult" where
  "fetchFeed env cfg =
     (case fetchFeed_try env cfg of
        Inr r \<Rightarrow> r
      | Inl e \<Rightarrow>
          \<lparr>FetchResult.feedName = name cfg, success = False, items = [],
           error = Some (errorMessage e)\<rparr>)"

text \<open>The comparator \<^verbatim>\<open>(a, b) => b.pubDate.getTime() - a.pubDate.getTime()\<close>.\<close>

definition byPubDate :: "FeedItem \<Rightarrow> FeedItem \<Rightarrow> int option" where
  "byPubDate a b =
     (case FeedItem.pubDate b of
        None \<Rightarrow> None
      | Some tb \<Rightarrow> (case FeedItem.pubDate a of None \<Rightarrow> None | Some ta \<Rightarrow> Some (tb - ta)))"

text \<open>
  One round of the loop of fetchAllFeeds. \<^verbatim>\<open>sort\<close> works in place, so the result object
  pushed to \<open>results\<close> holds the sorted items; the slice is what the feed adds to
  \<open>allItems\<close>.
\<close>

definition feedRound :: "Env \<Rightarrow> int \<Rightarrow> FeedConfig \<Rightarrow> FetchResult \<times> FeedItem list" where
  "feedRound env maxPerFeed feed =
     (let result = fetchFeed env feed in
      if FetchResult.success result then
        (let sorted = js_sort byPubDate (FetchResult.items result)
         in (result\<lparr>FetchResult.items := sorted\<rparr>, js_slice0 maxPerFeed sorted))
      else (result, []))"

fun fetchLoop :: "Env \<Rightarrow> int \<Rightarrow> FeedConfig list \<Rightarrow> FetchResult list \<times> FeedItem list" where
  "fetchLoop env maxPerFeed [] = ([], [])"
| "fetchLoop env maxPerFeed (feed # rest) =
     (let (result, sortedItems) = feedRound env maxPerFeed feed;
          (results, allItems) = fetchLoop env maxPerFeed rest
      in (result # results, sortedItems @ allItems))"

definition fetchAllFeeds :: "Env \<Rightarrow> FeedConfig list \<Rightarrow> int \<Rightarrow> FetchResult list \<times> FeedItem list" where
  "fetchAllFeeds env fds maxPerFeed = fetchLoop env maxPerFeed (filter enabled fds)"

section \<open>index.ts: main\<close>

text \<open>The selection steps of main, named after its local variables.\<close>

definition newItemsOf :: "string set \<Rightarrow> FeedItem list \<Rightarrow> FeedItem list" where
  "newItemsOf processedUrls allItems =
     filter (\<lambda>item. FeedItem.link item \<notin> processedUrls) allItems"

definition duplicatesRemovedOf :: "string set \<Rightarrow> FeedItem list \<Rightarrow> nat" where
  "duplicatesRemovedOf processedUrls allItems =
     length allItems - length (newItemsOf processedUrls allItems)"

definition sortedItemsOf :: "int \<Rightarrow> string set \<Rightarrow> FeedItem list \<Rightarrow> FeedItem list" where
  "sortedItemsOf maxTotal processedUrls allItems =
     js_slice0 maxTotal (js_sort byPubDate (newItemsOf processedUrls allItems))"

definition toMarkItem :: "FeedItem \<Rightarrow> MarkItem" where
  "toMarkItem item =
     \<lparr>MarkItem.url = FeedItem.link item, feedName = FeedItem.feedName item,
      title = Some (FeedItem.title item)\<rparr>"

text \<open>
  What can go wrong around the program: the configuration file may be missing or
  malformed, the store may fail to open, a statement may raise when it is executed (the
  oracle \<open>stmtError\<close> says so for each kind of statement and state of the store), and
  the file operations of the generator (creating the output directory, writing the
  files) may raise.
\<close>

datatype Statement = DeleteOld | SelectUrls | InsertProcessed | InsertFeedStats | InsertGeneration

record Host =
  configFile :: "thrown + Config"
  openDatabase :: "thrown + Database"
  stmtError :: "Statement \<Rightarrow> Database \<Rightarrow> thrown option"
  writeError :: "thrown option"

text \<open>
  How a run ends: the store as the run left it (\<open>None\<close> when it was never opened), the
  arguments of the writeNewsletter call that completed, whether the store was closed, and
  the exit code. \<^verbatim>\<open>process.exit(1)\<close> in the catch block ends the process on the spot, before
  the finally block.
\<close>

record Run =
  store :: "Database option"
  written :: "(FeedItem list \<times> GenerationStats \<times> FetchResult list) option"
  closed :: bool
  exitCode :: nat

definition fatal :: "Database option \<Rightarrow> (FeedItem list \<times> GenerationStats \<times> FetchResult list) option \<Rightarrow> Run" where
  "fatal d w = \<lparr>store = d, written = w, closed = False, exitCode = 1\<rparr>"

text \<open>The loop that records the feed stats; a raising statement leaves the loop.\<close>

fun recordAllFeedStats ::
  "Host \<Rightarrow> int \<Rightarrow> FeedItem list \<Rightarrow> FetchResult list \<Rightarrow> Database \<Rightarrow> thrown option \<times> Database" where
  "recordAllFeedStats host t newIts [] db = (None, db)"
| "recordAllFeedStats host t newIts (result # rest) db =
     (case stmtError host InsertFeedStats db of
        Some e \<Rightarrow> (Some e, db)
      | None \<Rightarrow>
          recordAllFeedStats host t newIts rest
            (recordFeedStats t (FetchResult.feedName result)
               (length (FetchResult.items result))
               (length (filter (\<lambda>i. FeedItem.feedName i = FetchResult.feedName result) newIts))
               (FetchResult.success result) (FetchResult.error result) db))"

text \<open>
  writeNewsletter renders every item with \<^verbatim>\<open>pubDate.toISOString()\<close>, which raises a
  RangeError on an Invalid Date, and then writes the files.
\<close>

definition writeNewsletter :: "Host \<Rightarrow> FeedItem list \<Rightarrow> thrown option" where
  "writeNewsletter host its =
     (if None \<in> set (map FeedItem.pubDate its) then Some (Error ''Invalid time value'')
      else writeError host)"

text \<open>Lines 58 to 147 of main: from the fetch summary to the end of the run.\<close>

definition mainAfterFetch ::
  "Host \<Rightarrow> int \<Rightarrow> Config \<Rightarrow> Database \<Rightarrow> string set \<Rightarrow> FetchResult list \<Rightarrow> FeedItem list \<Rightarrow> Run" where
  "mainAfterFetch host t config db processedUrls results allItems =
     (let stats =
        \<lparr>totalFeeds = length results,
         successfulFeeds = length (filter FetchResult.success results),
         failedFeeds = length (filter (\<lambda>r. \<not> FetchResult.success r) results),
         newItems = length (sortedItemsOf (maxTotalItems (newsletter config)) processedUrls allItems),
         duplicatesRemoved = duplicatesRemovedOf processedUrls allItems,
         generatedAt = t\<rparr>;
          sortedItems = sortedItemsOf (maxTotalItems (newsletter config)) processedUrls allItems
      in
      case recordAllFeedStats host t (js_sort byPubDate (newItemsOf processedUrls allItems))
             results db of
        (Some e, db2) \<Rightarrow> fatal (Some db2) None
      | (None, db2) \<Rightarrow>
     (case writeNewsletter host sortedItems of
        Some e \<Rightarrow> fatal (Some db2) None
      | None \<Rightarrow>
     (case (if sortedItems \<noteq> [] then stmtError host InsertProcessed db2 else None) of
        Some e \<Rightarrow> fatal (Some db2) (Some (sortedItems, stats, results))
      | None \<Rightarrow>
     (let db3 = (if sortedItems \<noteq> []
                 then markMultipleAsProcessed t (map toMarkItem sortedItems) db2 else db2)
      in
      case stmtError host InsertGeneration db3 of
        Some e \<Rightarrow> fatal (Some db3) (Some (sortedItems, stats, results))
      | None \<Rightarrow>
          \<lparr>store =
             Some (recordGeneration t (totalFeeds stats) (successfulFeeds stats)
                     (failedFeeds stats) (length sortedItems) (duplicatesRemoved stats) db3),
           written = Some (sortedItems, stats, results), closed = True, exitCode = 0\<rparr>))))"

definition main :: "Host \<Rightarrow> Env \<Rightarrow> Run" where
  "main host env =
     (case configFile host of
        Inl e \<Rightarrow> fatal None None
      | Inr config \<Rightarrow>
     (case openDatabase host of
        Inl e \<Rightarrow> fatal None None
      | Inr db0 \<Rightarrow>
     (case cleanOldEntries (dates env) (now env) (retentionDays (newsletter config)) db0 of
        Inl e \<Rightarrow> fatal (Some db0) None
      | Inr (removed, db1) \<Rightarrow>
     (case stmtError host DeleteOld db0 of
        Some e \<Rightarrow> fatal (Some db0) None
      | None \<Rightarrow>
     (case stmtError host SelectUrls db1 of
        Some e \<Rightarrow> fatal (Some db1) None
      | None \<Rightarrow>
          (let (results, allItems) =
                 fetchAllFeeds env (feeds config) (maxItemsPerFeed (newsletter config))
           in mainAfterFetch host (now env) config db1 (getProcessedUrls db1) results allItems))))))"

section \<open>newsletterGenerator.ts: the item fields in generateItemHtml\<close>

text \<open>
  The strings of an item that generateItemHtml puts into the page, in the order and under
  the conditions of its template: link, title and feed name always, the author when there
  is one, the description when it is not empty. The markup of the template and the two
  time fields are not in the list.
\<close>

definition itemInterpolations :: "FeedItem \<Rightarrow> string list" where
  "itemInterpolations item =
     [escapeHtml (FeedItem.link item), escapeHtml (FeedItem.title item),
      escapeHtml (FeedItem.feedName item)]
     @ (if truthy (FeedItem.author item) then [escapeHtml (js_string (FeedItem.author item))] else [])
     @ (if FeedItem.description item = [] then []
        else [escapeHtml (FeedItem.description item)])"

section \<open>Notions used to state the properties\<close>

text \<open>JavaScript's \<^verbatim>\<open>>=\<close> on two time values: false as soon as one of them is NaN.\<close>

definition js_ge :: "js_date \<Rightarrow> js_date \<Rightarrow> bool" where
  "js_ge a b =
     (case a of None \<Rightarrow> False | Some x \<Rightarrow> (case b of None \<Rightarrow> False | Some y \<Rightarrow> y \<le> x))"

text \<open>Every adjacent pair of the list has the earlier item at least as recent as the later.\<close>

fun nonIncreasing :: "FeedItem list \<Rightarrow> bool" where
  "nonIncreasing (a # b # rest) =
     (js_ge (FeedItem.pubDate a) (FeedItem.pubDate b) \<and> nonIncreasing (b # rest))"
| "nonIncreasing [a] = True"
| "nonIncreasing [] = True"

definition timeOf :: "FeedItem \<Rightarrow> int" where
  "timeOf i = (case FeedItem.pubDate i of None \<Rightarrow> 0 | Some t \<Rightarrow> t)"

definition validDates :: "FeedItem list \<Rightarrow> bool" where
  "validDates xs = (None \<notin> set (map FeedItem.pubDate xs))"

section \<open>Example values\<close>

definition emptyDatabase :: Database where
  "emptyDatabase = \<lparr>processed_items = [], feed_stats = [], generation_history = []\<rparr>"

definition exampleItem :: "string \<Rightarrow> string \<Rightarrow> js_date \<Rightarrow> FeedItem" where
  "exampleItem f l d =
     \<lparr>FeedItem.id = l, title = l, link = l, description = [], pubDate = d, feedName = f,
      category = ''News'', author = None\<rparr>"

definition exampleConfig :: "int \<Rightarrow> int \<Rightarrow> FeedConfig list \<Rightarrow> Config" where
  "exampleConfig perFeed maxTotal fds =
     \<lparr>newsletter =
        \<lparr>NewsletterConfig.title = ''Digest'', description = [], author = [],
         maxItemsPerFeed = perFeed, maxTotalItems = maxTotal, retentionDays = 30\<rparr>,
      feeds = fds, categories = []\<rparr>"

definition exampleHost :: "Config \<Rightarrow> (Statement \<Rightarrow> Database \<Rightarrow> thrown option) \<Rightarrow> Host" where
  "exampleHost config err =
     \<lparr>configFile = Inr config, openDatabase = Inr emptyDatabase, stmtError = err,
      writeError = None\<rparr>"

definition noError :: "Statement \<Rightarrow> Database \<Rightarrow> thrown option" where
  "noError s db = None"

definition failingOn :: "Statement \<Rightarrow> Statement \<Rightarrow> Database \<Rightarrow> thrown option" where
  "failingOn bad s db = (if s = bad then Some (Error ''disk I/O error'') else None)"

text \<open>
  A host in UTC and one in a zone that moves from five to four hours behind UTC on
  2026-03-08 at 07:00 UTC, each with the ISO-8601 texts of the instants used below.
\<close>

definition utcDates :: DateLib where
  "utcDates =
     \<lparr>localTZA = (\<lambda>t isUTC. 0),
      toISOString = (\<lambda>t. if t = 1771415999999 then ''2026-02-18T11:59:59.999Z''
                         else if t = 1771416000000 then ''2026-02-18T12:00:00.000Z''
                         else if t = 1771417800000 then ''2026-02-18T12:30:00.000Z''
                         else if t = 1771419600000 then ''2026-02-18T13:00:00.000Z''
                         else if t = 1774008000000 then ''2026-03-20T12:00:00.000Z''
                         else ''1970-01-01T00:00:00.000Z'')\<rparr>"

definition zoneDates :: DateLib where
  "zoneDates =
     utcDates
       \<lparr>localTZA := (\<lambda>t isUTC.
          if isUTC then (if t < 1772953200000 then - 18000000 else - 14400000)
          else (if t < 1772935200000 then - 18000000 else - 14400000))\<rparr>"

definition exampleEnv :: "(thrown + ParserOutput) \<Rightarrow> Env" where
  "exampleEnv out =
     \<lparr>parseURL = (\<lambda>u. out),
      parseDate = (\<lambda>s. if s = ''1970-01-01T00:00:00.000Z'' then Some 0
                       else if s = ''1970-01-01T00:00:00.001Z'' then Some 1
                       else if s = ''1970-01-01T00:00:00.002Z'' then Some 2
                       else if s = ''1970-01-01T00:00:00.003Z'' then Some 3 else None),
      md5 = (\<lambda>s. s), sanitizeHtml = (\<lambda>s. case s of None \<Rightarrow> [] | Some d \<Rightarrow> d),
      now = 100, dates = utcDates\<rparr>"

definition exampleFeed :: "string \<Rightarrow> FeedConfig" where
  "exampleFeed n = \<lparr>name = n, url = ''https://'' @ n, category = ''News'', enabled = True\<rparr>"

definition twoItems :: "FeedItem list" where
  "twoItems = [exampleItem ''A'' ''u1'' (Some 2), exampleItem ''A'' ''u2'' (Some 1)]"

definition statsFailing :: "Statement \<Rightarrow> Database \<Rightarrow> thrown option" where
  "statsFailing s db =
     (if s = InsertFeedStats then Some (Error ''disk I/O error'')
      else if s = InsertGeneration then Some (Error ''disk I/O error'') else None)"

definition failedResult :: FetchResult where
  "failedResult = \<lparr>FetchResult.feedName = ''A'', success = False, items = [], error = Some ''timeout''\<rparr>"

text \<open>
  A successful fetch of feed A with the two items, and the store after its feed stats
  have been recorded at time 100.
\<close>

definition okResult :: FetchResult where
  "okResult = \<lparr>FetchResult.feedName = ''A'', success = True, items = twoItems, error = None\<rparr>"

definition afterFeedStats :: Database where
  "afterFeedStats =
     \<lparr>processed_items = [],
      feed_stats =
        [\<lparr>feed_stats_row.feed_name = ''A'', fetch_date = 100, items_fetched = 2, items_new = 2,
          success = 1, error_message = None\<rparr>],
      generation_history = []\<rparr>"

definition exampleParserItem :: "string \<Rightarrow> string \<Rightarrow> ParserItem" where
  "exampleParserItem l d =
     \<lparr>guid = None, link = Some l, title = Some l, pubDate = Some d, contentSnippet = None,
      content = None, summary = None, creator = None, author = None\<rparr>"

text \<open>Two feeds A and B with dated items, and any other feed timing out.\<close>

definition scenarioEnv :: Env where
  "scenarioEnv =
     (exampleEnv (Inl NonError))
       \<lparr>parseURL := (\<lambda>u.
          if u = ''https://A'' then
            Inr \<lparr>ParserOutput.items =
                  [exampleParserItem ''mon'' ''1970-01-01T00:00:00.001Z'',
                   exampleParserItem ''tue'' ''1970-01-01T00:00:00.002Z'',
                   exampleParserItem ''wed'' ''1970-01-01T00:00:00.003Z''], title = None\<rparr>
          else if u = ''https://B'' then
            Inr \<lparr>ParserOutput.items =
                  [exampleParserItem ''sun'' ''1970-01-01T00:00:00.000Z''], title = None\<rparr>
          else Inl (Error ''timeout''))\<rparr>"

section \<open>Properties of escapeHtml\<close>

lemma replace_all_Nil: "replace_all c s [] = []"
  by (simp add: replace_all_def)

lemma replace_all_Cons:
  "replace_all c s (x # xs) = (if x = c then s else [x]) @ replace_all c s xs"
  by (simp add: replace_all_def)

lemma replace_all_append:
  "replace_all c s (xs @ ys) = replace_all c s xs @ replace_all c s ys"
  by (simp add: replace_all_def)

lemma replace_all_absent: "c \<notin> set xs \<Longrightarrow> replace_all c s xs = xs"
  by (induction xs) (auto simp: replace_all_Cons replace_all_Nil)

lemma escapeHtml_Nil: "escapeHtml [] = []"
  by (simp add: escapeHtml_def replace_all_Nil)

lemma escapeHtml_single: "escapeHtml [x] = entity x"
  by (simp add: escapeHtml_def entity_def replace_all_Cons replace_all_Nil)

lemma escapeHtml_append: "escapeHtml (xs @ ys) = escapeHtml xs @ escapeHtml ys"
  by (simp add: escapeHtml_def replace_all_append)

lemma escapeHtml_concat: "escapeHtml text = concat (map entity text)"
proof (induction "text")
  case Nil
  show ?case by (simp add: escapeHtml_Nil)
next
  case (Cons x xs)
  have "escapeHtml (x # xs) = escapeHtml [x] @ escapeHtml xs"
    using escapeHtml_append [of "[x]" xs] by simp
  with Cons show ?case by (simp add: escapeHtml_single)
qed

lemma entity_no_special: "set (entity x) \<inter> html_special = {}"
  by (auto simp: entity_def html_special_def)

text \<open>
  C10. For every input string, the result of escapeHtml is the input with each character
  replaced by its own entity (the later replacements never touch the text the earlier
  ones introduced), and it contains none of the characters \<open><\<close>, \<open>>\<close>, double quote and
  single quote; so none of them occurs in the link, title, feed name, author and
  description of an item as generateItemHtml writes them.
\<close>

theorem escapeHtml_no_special:
  "escapeHtml text = concat (map entity text)
   \<and> set (escapeHtml text) \<inter> html_special = {}
   \<and> set (concat (itemInterpolations item)) \<inter> html_special = {}"
proof (intro conjI)
  show "escapeHtml text = concat (map entity text)"
    by (rule escapeHtml_concat)
  have free: "set (escapeHtml s) \<inter> html_special = {}" for s
  proof -
    have "set (concat (map entity s)) \<inter> html_special = {}"
      using entity_no_special by (induction s) auto
    then show ?thesis
      by (simp add: escapeHtml_concat)
  qed
  show "set (escapeHtml text) \<inter> html_special = {}"
    by (rule free)
  have "set s \<inter> html_special = {}" if "s \<in> set (itemInterpolations item)" for s
    using that free by (auto simp: itemInterpolations_def split: if_splits)
  then show "set (concat (itemInterpolations item)) \<inter> html_special = {}"
    by auto
qed

section \<open>Properties of the store\<close>

lemma insert_or_ignore_urls:
  "processed_items_row.url ` set (insert_or_ignore r rows) =
   insert (processed_items_row.url r) (processed_items_row.url ` set rows)"
  by (auto simp: insert_or_ignore_def)

lemma insert_or_ignore_distinct:
  "distinct (map processed_items_row.url rows) \<Longrightarrow>
   distinct (map processed_items_row.url (insert_or_ignore r rows))"
  by (auto simp: insert_or_ignore_def)

lemma insert_or_ignore_prefix:
  "\<exists>new. insert_or_ignore r rows = rows @ new"
  by (simp add: insert_or_ignore_def)

lemma insert_or_ignore_present:
  "processed_items_row.url r \<in> processed_items_row.url ` set rows \<Longrightarrow>
   insert_or_ignore r rows = rows"
  by (simp add: insert_or_ignore_def)

lemma insertMany_urls:
  "processed_items_row.url ` set (insertMany t its rows) =
   processed_items_row.url ` set rows \<union> MarkItem.url ` set its"
  by (induction its arbitrary: rows) (auto simp: insert_or_ignore_urls)

lemma insertMany_distinct:
  "distinct (map processed_items_row.url rows) \<Longrightarrow>
   distinct (map processed_items_row.url (insertMany t its rows))"
  by (induction its arbitrary: rows) (auto simp: insert_or_ignore_distinct)

lemma insertMany_prefix: "\<exists>new. insertMany t its rows = rows @ new"
proof (induction its arbitrary: rows)
  case Nil
  show ?case by simp
next
  case (Cons item rest)
  obtain n1 where n1: "insert_or_ignore
          \<lparr>processed_items_row.url = MarkItem.url item, feed_name = MarkItem.feedName item,
           processed_at = t, title = or_null (MarkItem.title item)\<rparr> rows = rows @ n1"
    using insert_or_ignore_prefix by blast
  obtain n2 where "insertMany t rest (rows @ n1) = (rows @ n1) @ n2"
    using Cons.IH by blast
  with n1 show ?case by simp
qed

lemma insertMany_present:
  "MarkItem.url ` set its \<subseteq> processed_items_row.url ` set rows \<Longrightarrow>
   insertMany t its rows = rows"
  by (induction its arbitrary: rows) (auto simp: insert_or_ignore_present)

lemma insertMany_twice: "insertMany t2 its (insertMany t1 its rows) = insertMany t1 its rows"
  by (rule insertMany_present) (simp add: insertMany_urls)




lemma cleanOldEntries_returns:
  "cutoffDate lib t d \<noteq> None \<Longrightarrow> \<exists>n db1. cleanOldEntries lib t d db = Inr (n, db1)"
  by (auto simp: cleanOldEntries_def Let_def)

lemma primary_key_invariant:
  "distinct (map processed_items_row.url (processed_items emptyDatabase))"
  "distinct (map processed_items_row.url (processed_items db)) \<Longrightarrow>
   distinct (map processed_items_row.url (processed_items (markAsProcessed t u f ti db)))"
  "distinct (map processed_items_row.url (processed_items db)) \<Longrightarrow>
   distinct (map processed_items_row.url (processed_items (markMultipleAsProcessed t its db)))"
  "distinct (map processed_items_row.url (processed_items db)) \<Longrightarrow>
   cleanOldEntries lib t d db = Inr (n, db') \<Longrightarrow>
   distinct (map processed_items_row.url (processed_items db'))"
  "processed_items (recordFeedStats t f n m b e db) = processed_items db"
  "processed_items (recordGeneration t n1 n2 n3 n4 n5 db) = processed_items db"
  by (auto simp: emptyDatabase_def markAsProcessed_def markMultipleAsProcessed_def
        cleanOldEntries_def Let_def recordFeedStats_def recordGeneration_def
        insert_or_ignore_distinct insertMany_distinct distinct_map_filter
        split: option.splits)

text \<open>
  C4. markMultipleAsProcessed is an idempotent bulk insert. On a table whose URLs are
  distinct (the primary key), after any two calls the URLs are still distinct, the table
  holds exactly the URLs it had and those of the two calls, the rows present after the
  first call are all kept unchanged and in place (so the feed name, title and
  processed_at of the first insertion of a URL stay), a call whose URLs are all present
  changes nothing, and repeating a call changes nothing.
\<close>

theorem markMultipleAsProcessed_idempotent:
  assumes "distinct (map processed_items_row.url (processed_items db))"
  shows "distinct (map processed_items_row.url
           (processed_items (markMultipleAsProcessed t2 ys (markMultipleAsProcessed t1 xs db))))
    \<and> getProcessedUrls (markMultipleAsProcessed t2 ys (markMultipleAsProcessed t1 xs db)) =
        getProcessedUrls db \<union> MarkItem.url ` set xs \<union> MarkItem.url ` set ys
    \<and> (\<exists>new. processed_items (markMultipleAsProcessed t2 ys (markMultipleAsProcessed t1 xs db)) =
           processed_items (markMultipleAsProcessed t1 xs db) @ new)
    \<and> (MarkItem.url ` set ys \<subseteq> getProcessedUrls (markMultipleAsProcessed t1 xs db) \<longrightarrow>
         markMultipleAsProcessed t2 ys (markMultipleAsProcessed t1 xs db) =
         markMultipleAsProcessed t1 xs db)
    \<and> markMultipleAsProcessed t2 xs (markMultipleAsProcessed t1 xs db) =
        markMultipleAsProcessed t1 xs db"
proof (intro conjI)
  show "distinct (map processed_items_row.url
           (processed_items (markMultipleAsProcessed t2 ys (markMultipleAsProcessed t1 xs db))))"
    using assms by (simp add: markMultipleAsProcessed_def insertMany_distinct)
  show "getProcessedUrls (markMultipleAsProcessed t2 ys (markMultipleAsProcessed t1 xs db)) =
        getProcessedUrls db \<union> MarkItem.url ` set xs \<union> MarkItem.url ` set ys"
    by (simp add: markMultipleAsProcessed_def getProcessedUrls_def insertMany_urls)
  show "\<exists>new. processed_items (markMultipleAsProcessed t2 ys (markMultipleAsProcessed t1 xs db)) =
           processed_items (markMultipleAsProcessed t1 xs db) @ new"
    using insertMany_prefix [of t2 ys "insertMany t1 xs (processed_items db)"]
    by (simp add: markMultipleAsProcessed_def)
  show "MarkItem.url ` set ys \<subseteq> getProcessedUrls (markMultipleAsProcessed t1 xs db) \<longrightarrow>
         markMultipleAsProcessed t2 ys (markMultipleAsProcessed t1 xs db) =
         markMultipleAsProcessed t1 xs db"
    by (simp add: markMultipleAsProcessed_def getProcessedUrls_def insertMany_present)
  show "markMultipleAsProcessed t2 xs (markMultipleAsProcessed t1 xs db) =
        markMultipleAsProcessed t1 xs db"
    by (simp add: markMultipleAsProcessed_def insertMany_twice)
qed

theorem markMultipleAsProcessed_idempotent_witness:
  "distinct (map processed_items_row.url (processed_items emptyDatabase))
   \<and> processed_items
        (markMultipleAsProcessed 2
           [\<lparr>MarkItem.url = ''b'', feedName = ''G'', title = Some ''B2''\<rparr>,
            \<lparr>MarkItem.url = ''c'', feedName = ''G'', title = None\<rparr>]
           (markMultipleAsProcessed 1
              [\<lparr>MarkItem.url = ''a'', feedName = ''F'', title = Some ''A''\<rparr>,
               \<lparr>MarkItem.url = ''b'', feedName = ''F'', title = Some ''B''\<rparr>]
              emptyDatabase)) =
       [\<lparr>processed_items_row.url = ''a'', feed_name = ''F'', processed_at = 1, title = Some ''A''\<rparr>,
        \<lparr>processed_items_row.url = ''b'', feed_name = ''F'', processed_at = 1, title = Some ''B''\<rparr>,
        \<lparr>processed_items_row.url = ''c'', feed_name = ''G'', processed_at = 2, title = None\<rparr>]
   \<and> distinct (map processed_items_row.url
        (processed_items
          (markMultipleAsProcessed 2
           [\<lparr>MarkItem.url = ''b'', feedName = ''G'', title = Some ''B2''\<rparr>,
            \<lparr>MarkItem.url = ''c'', feedName = ''G'', title = None\<rparr>]
           (markMultipleAsProcessed 1
              [\<lparr>MarkItem.url = ''a'', feedName = ''F'', title = Some ''A''\<rparr>,
               \<lparr>MarkItem.url = ''b'', feedName = ''F'', title = Some ''B''\<rparr>]
              emptyDatabase))))"
  using markMultipleAsProcessed_idempotent
    [of emptyDatabase 2
        "[\<lparr>MarkItem.url = ''b'', feedName = ''G'', title = Some ''B2''\<rparr>,
          \<lparr>MarkItem.url = ''c'', feedName = ''G'', title = None\<rparr>]"
        1
        "[\<lparr>MarkItem.url = ''a'', feedName = ''F'', title = Some ''A''\<rparr>,
          \<lparr>MarkItem.url = ''b'', feedName = ''F'', title = Some ''B''\<rparr>]"]
  by (simp add: emptyDatabase_def markMultipleAsProcessed_def insert_or_ignore_def
        or_null_def truthy_def)





section \<open>Properties of sort and slice\<close>

lemma mset_js_insert: "mset (js_insert c x ys) = add_mset x (mset ys)"
  by (induction ys) auto

lemma mset_js_sort: "mset (js_sort c xs) = mset xs"
  by (induction xs) (auto simp: js_sort_def mset_js_insert)

lemma set_js_sort: "set (js_sort c xs) = set xs"
  using mset_js_sort [of c xs] by (metis set_mset_mset)

lemma length_js_sort: "length (js_sort c xs) = length xs"
  using mset_js_sort [of c xs] by (metis size_mset)

lemma js_sort_Nil: "js_sort c [] = []"
  by (simp add: js_sort_def)

lemma js_sort_Cons: "js_sort c (x # xs) = js_insert c x (js_sort c xs)"
  by (simp add: js_sort_def)

lemma sortCompare_valid:
  "FeedItem.pubDate x \<noteq> None \<Longrightarrow> FeedItem.pubDate y \<noteq> None \<Longrightarrow>
   sortCompare byPubDate x y = timeOf y - timeOf x"
  by (auto simp: sortCompare_def byPubDate_def timeOf_def)

lemma js_insert_insort:
  "FeedItem.pubDate x \<noteq> None \<Longrightarrow> None \<notin> FeedItem.pubDate ` set ys \<Longrightarrow>
   js_insert byPubDate x ys = insort_key (\<lambda>i. - timeOf i) x ys"
  by (induction ys) (auto simp: sortCompare_valid)

lemma js_sort_sort_key:
  "validDates xs \<Longrightarrow> js_sort byPubDate xs = sort_key (\<lambda>i. - timeOf i) xs"
proof (induction xs)
  case Nil
  show ?case by (simp add: js_sort_Nil)
next
  case (Cons x xs)
  then have v: "FeedItem.pubDate x \<noteq> None" "validDates xs"
    by (auto simp: validDates_def)
  have "None \<notin> FeedItem.pubDate ` set (js_sort byPubDate xs)"
    using v(2) by (simp add: set_js_sort validDates_def)
  then show ?case
    using Cons.IH v by (simp add: js_sort_Cons js_insert_insort)
qed

lemma js_sort_sorted:
  "validDates xs \<Longrightarrow> sorted_wrt (\<lambda>a b. timeOf b \<le> timeOf a) (js_sort byPubDate xs)"
proof -
  assume v: "validDates xs"
  have "sorted (map (\<lambda>i. - timeOf i) (sort_key (\<lambda>i. - timeOf i) xs))"
    by (rule sorted_sort_key)
  then have "sorted_wrt (\<lambda>a b. - timeOf a \<le> - timeOf b) (sort_key (\<lambda>i. - timeOf i) xs)"
    by (simp add: sorted_map)
  then show ?thesis
    using v by (simp add: js_sort_sort_key)
qed

lemma js_sort_stable:
  "validDates xs \<Longrightarrow>
   filter (\<lambda>i. timeOf i = t) (js_sort byPubDate xs) = filter (\<lambda>i. timeOf i = t) xs"
proof -
  assume v: "validDates xs"
  have "filter (\<lambda>i. - timeOf i = - t) (sort_key (\<lambda>i. - timeOf i) xs) =
        filter (\<lambda>i. - timeOf i = - t) xs"
    by (rule sort_key_stable)
  then show ?thesis using v by (simp add: js_sort_sort_key)
qed

lemma nonIncreasing_sorted_wrt:
  "None \<notin> FeedItem.pubDate ` set xs \<Longrightarrow> sorted_wrt (\<lambda>a b. timeOf b \<le> timeOf a) xs \<Longrightarrow> nonIncreasing xs"
  by (induction xs rule: nonIncreasing.induct)
     (auto simp: js_ge_def timeOf_def split: option.splits)

lemma js_slice0_take: "\<exists>n. js_slice0 e xs = take n xs"
  by (auto simp: js_slice0_def)

lemma js_slice0_nonneg: "0 \<le> e \<Longrightarrow> js_slice0 e xs = take (nat e) xs"
  by (auto simp: js_slice0_def min_def)

lemma js_slice0_length: "0 \<le> e \<Longrightarrow> length (js_slice0 e xs) = min (nat e) (length xs)"
  by (simp add: js_slice0_nonneg)

lemma js_slice0_zero: "js_slice0 0 xs = []"
  by (simp add: js_slice0_def)

lemma js_slice0_subset: "set (js_slice0 e xs) \<subseteq> set xs"
  using js_slice0_take [of e xs] by (auto dest: in_set_takeD)

lemma sortedItemsOf_nonIncreasing:
  "validDates allItems \<Longrightarrow> nonIncreasing (sortedItemsOf maxTotal processedUrls allItems)"
proof -
  assume v: "validDates allItems"
  let ?new = "newItemsOf processedUrls allItems"
  have vn: "validDates ?new"
    using v by (auto simp: validDates_def newItemsOf_def)
  obtain n where n: "sortedItemsOf maxTotal processedUrls allItems = take n (js_sort byPubDate ?new)"
    using js_slice0_take [of maxTotal "js_sort byPubDate ?new"] by (auto simp: sortedItemsOf_def)
  have "sorted_wrt (\<lambda>a b. timeOf b \<le> timeOf a) (take n (js_sort byPubDate ?new))"
    using js_sort_sorted [OF vn] by (rule sorted_wrt_take)
  moreover have "None \<notin> FeedItem.pubDate ` set (take n (js_sort byPubDate ?new))"
    using vn by (auto simp: validDates_def set_js_sort dest: in_set_takeD)
  ultimately show ?thesis
    using n nonIncreasing_sorted_wrt by simp
qed

section \<open>Properties of main\<close>

lemma mainAfterFetch_written:
  "written (mainAfterFetch host t config db urls results allItems) = Some (its, stats, res) \<Longrightarrow>
   its = sortedItemsOf (maxTotalItems (newsletter config)) urls allItems
   \<and> newItems stats = length its
   \<and> duplicatesRemoved stats = duplicatesRemovedOf urls allItems
   \<and> res = results"
  by (auto simp: mainAfterFetch_def Let_def fatal_def split: prod.splits option.splits if_splits)

lemma mainAfterFetch_completed:
  "exitCode (mainAfterFetch host t config db urls results allItems) = 0 \<Longrightarrow>
   \<exists>db3. store (mainAfterFetch host t config db urls results allItems) =
     Some (recordGeneration t (length results) (length (filter FetchResult.success results))
            (length (filter (\<lambda>r. \<not> FetchResult.success r) results))
            (length (sortedItemsOf (maxTotalItems (newsletter config)) urls allItems))
            (duplicatesRemovedOf urls allItems) db3)"
  by (auto simp: mainAfterFetch_def Let_def fatal_def split: prod.splits option.splits if_splits)

lemma main_written:
  "written (main host env) = Some w \<Longrightarrow>
   \<exists>config db1. configFile host = Inr config \<and>
     main host env =
       mainAfterFetch host (now env) config db1 (getProcessedUrls db1)
         (fst (fetchAllFeeds env (feeds config) (maxItemsPerFeed (newsletter config))))
         (snd (fetchAllFeeds env (feeds config) (maxItemsPerFeed (newsletter config))))"
  by (auto simp: main_def Let_def fatal_def split: sum.splits option.splits prod.splits)

lemma main_reaches:
  "configFile host = Inr config \<Longrightarrow> openDatabase host = Inr db0 \<Longrightarrow>
   cleanOldEntries (dates env) (now env) (retentionDays (newsletter config)) db0 = Inr (n, db1) \<Longrightarrow>
   stmtError host DeleteOld db0 = None \<Longrightarrow> stmtError host SelectUrls db1 = None \<Longrightarrow>
   main host env =
     mainAfterFetch host (now env) config db1 (getProcessedUrls db1)
       (fst (fetchAllFeeds env (feeds config) (maxItemsPerFeed (newsletter config))))
       (snd (fetchAllFeeds env (feeds config) (maxItemsPerFeed (newsletter config))))"
  by (simp add: main_def Let_def split: prod.splits)

lemma recordAllFeedStats_ok:
  "\<forall>s db. stmtError host s db = None \<Longrightarrow>
   \<exists>db2. recordAllFeedStats host t newIts results db = (None, db2)"
  by (induction results arbitrary: db) auto

lemma mainAfterFetch_cap_zero:
  assumes "\<forall>s db. stmtError host s db = None" "writeError host = None"
    "maxTotalItems (newsletter config) = 0"
  shows "exitCode (mainAfterFetch host t config db urls results allItems) = 0
     \<and> closed (mainAfterFetch host t config db urls results allItems)
     \<and> (\<exists>stats. written (mainAfterFetch host t config db urls results allItems) =
           Some ([], stats, results))"
proof -
  obtain db2 where db2: "recordAllFeedStats host t
       (js_sort byPubDate (newItemsOf urls allItems)) results db = (None, db2)"
    using recordAllFeedStats_ok [OF assms(1)] by blast
  have s: "sortedItemsOf 0 urls allItems = []"
    by (simp add: sortedItemsOf_def js_slice0_zero)
  show ?thesis
    using assms db2 s by (simp add: mainAfterFetch_def Let_def writeNewsletter_def)
qed

text \<open>
  The count reported by a run is not the number of items that survived the dedup: with
  two new items and a total cap of one, the statistics of the newsletter and the
  generation_history row both say one.
\<close>

theorem reported_newItems_counterexample:
  "map_option (\<lambda>(its, stats, res). (map FeedItem.link its, newItems stats))
     (written (mainAfterFetch (exampleHost (exampleConfig 10 1 []) noError) 100
        (exampleConfig 10 1 []) emptyDatabase {} []
        [exampleItem ''A'' ''u1'' (Some 2), exampleItem ''A'' ''u2'' (Some 1)])) =
     Some ([''u1''], 1)
   \<and> map_option (\<lambda>db. map new_items (generation_history db))
     (store (mainAfterFetch (exampleHost (exampleConfig 10 1 []) noError) 100
        (exampleConfig 10 1 []) emptyDatabase {} []
        [exampleItem ''A'' ''u1'' (Some 2), exampleItem ''A'' ''u2'' (Some 1)])) = Some [1]
   \<and> length (newItemsOf {} [exampleItem ''A'' ''u1'' (Some 2), exampleItem ''A'' ''u2'' (Some 1)]) = 2"
  by (simp add: mainAfterFetch_def Let_def exampleHost_def exampleConfig_def noError_def
        emptyDatabase_def exampleItem_def sortedItemsOf_def newItemsOf_def js_sort_def
        js_slice0_def sortCompare_def byPubDate_def writeNewsletter_def
        markMultipleAsProcessed_def insert_or_ignore_def toMarkItem_def or_null_def truthy_def
        recordGeneration_def duplicatesRemovedOf_def)

lemma sortedItemsOf_length:
  "0 \<le> maxTotal \<Longrightarrow>
   length (sortedItemsOf maxTotal urls allItems) = min (nat maxTotal) (length (newItemsOf urls allItems))"
  by (simp add: sortedItemsOf_def js_slice0_length length_js_sort)

text \<open>
  C1, as amended. The new-item count a run reports, in the statistics handed to
  writeNewsletter and in the generation_history row, is the length of the final item
  list, after the truncation to the total cap: for a cap that is not negative, the
  smaller of the cap and the number of items that survived the dedup.
\<close>

theorem reported_newItems_is_final_length:
  "(written (mainAfterFetch host t config db urls results allItems) = Some (its, stats, res) \<longrightarrow>
      its = sortedItemsOf (maxTotalItems (newsletter config)) urls allItems
      \<and> newItems stats = length its
      \<and> (0 \<le> maxTotalItems (newsletter config) \<longrightarrow>
           newItems stats =
             min (nat (maxTotalItems (newsletter config))) (length (newItemsOf urls allItems))))
   \<and> (exitCode (mainAfterFetch host t config db urls results allItems) = 0 \<longrightarrow>
      (\<exists>db'. store (mainAfterFetch host t config db urls results allItems) = Some db'
         \<and> generation_history db' \<noteq> []
         \<and> new_items (last (generation_history db')) =
             length (sortedItemsOf (maxTotalItems (newsletter config)) urls allItems)))"
proof (intro conjI impI)
  assume w: "written (mainAfterFetch host t config db urls results allItems) = Some (its, stats, res)"
  from mainAfterFetch_written [OF w]
  show a: "its = sortedItemsOf (maxTotalItems (newsletter config)) urls allItems"
    and b: "newItems stats = length its"
    by simp_all
  assume "0 \<le> maxTotalItems (newsletter config)"
  then show "newItems stats =
      min (nat (maxTotalItems (newsletter config))) (length (newItemsOf urls allItems))"
    using a b by (simp add: sortedItemsOf_length)
next
  assume "exitCode (mainAfterFetch host t config db urls results allItems) = 0"
  from mainAfterFetch_completed [OF this]
  show "\<exists>db'. store (mainAfterFetch host t config db urls results allItems) = Some db'
         \<and> generation_history db' \<noteq> []
         \<and> new_items (last (generation_history db')) =
             length (sortedItemsOf (maxTotalItems (newsletter config)) urls allItems)"
    by (auto simp: recordGeneration_def)
qed

lemmas example_defs =
  exampleHost_def exampleConfig_def noError_def failingOn_def emptyDatabase_def exampleItem_def
  twoItems_def exampleEnv_def exampleFeed_def utcDates_def zoneDates_def

lemmas eval_defs =
  mainAfterFetch_def Let_def sortedItemsOf_def newItemsOf_def js_sort_def
  js_slice0_def sortCompare_def byPubDate_def writeNewsletter_def
  markMultipleAsProcessed_def insert_or_ignore_def toMarkItem_def or_null_def truthy_def
  recordGeneration_def recordFeedStats_def duplicatesRemovedOf_def fatal_def

lemmas fetch_defs =
  main_def cleanOldEntries_def cutoffDate_def setDateBack_def timeClip_def isoBefore_def
  getProcessedUrls_def
  fetchAllFeeds_def feedRound_def fetchFeed_def fetchFeed_try_def List.map_filter_def
  toFeedItem_def generateItemId_def or_else_def js_string_def errorMessage_def
  exampleParserItem_def

theorem reported_newItems_is_final_length_witness:
  "written (mainAfterFetch (exampleHost (exampleConfig 10 1 []) noError) 100
        (exampleConfig 10 1 []) emptyDatabase {} [] twoItems) =
     Some ([exampleItem ''A'' ''u1'' (Some 2)],
           \<lparr>totalFeeds = 0, successfulFeeds = 0, failedFeeds = 0, newItems = 1,
            duplicatesRemoved = 0, generatedAt = 100\<rparr>, [])
   \<and> newItems \<lparr>totalFeeds = 0, successfulFeeds = 0, failedFeeds = 0, newItems = 1,
            duplicatesRemoved = 0, generatedAt = 100\<rparr> =
       min (nat (maxTotalItems (newsletter (exampleConfig 10 1 []))))
           (length (newItemsOf {} twoItems))
   \<and> exitCode (mainAfterFetch (exampleHost (exampleConfig 10 1 []) noError) 100
        (exampleConfig 10 1 []) emptyDatabase {} [] twoItems) = 0"
  using reported_newItems_is_final_length
    [of "exampleHost (exampleConfig 10 1 []) noError" 100 "exampleConfig 10 1 []" emptyDatabase
        "{}" "[]" twoItems "[exampleItem ''A'' ''u1'' (Some 2)]"
        "\<lparr>totalFeeds = 0, successfulFeeds = 0, failedFeeds = 0, newItems = 1,
            duplicatesRemoved = 0, generatedAt = 100\<rparr>" "[]"]
  by (simp add: eval_defs example_defs)

lemma recordAllFeedStats_processed:
  "processed_items (snd (recordAllFeedStats host t newIts results db)) = processed_items db"
  by (induction results arbitrary: db) (auto simp: recordFeedStats_def split: option.splits)

lemma length_fetchLoop: "length (fst (fetchLoop env k fds)) = length fds"
  by (induction fds) (auto simp: Let_def split: prod.splits)

lemma main_cases:
  "configFile host = Inr config \<Longrightarrow>
   (\<exists>d. main host env = fatal d None) \<or>
   (\<exists>db1. main host env =
       mainAfterFetch host (now env) config db1 (getProcessedUrls db1)
         (fst (fetchAllFeeds env (feeds config) (maxItemsPerFeed (newsletter config))))
         (snd (fetchAllFeeds env (feeds config) (maxItemsPerFeed (newsletter config)))))"
  by (auto simp: main_def Let_def split: sum.splits option.splits prod.splits)

lemma recordAllFeedStats_fails:
  "\<forall>db'. stmtError host InsertFeedStats db' \<noteq> None \<Longrightarrow> results \<noteq> [] \<Longrightarrow>
   \<exists>e. recordAllFeedStats host t newIts results db = (Some e, db)"
proof -
  assume a: "\<forall>db'. stmtError host InsertFeedStats db' \<noteq> None" and ne: "results \<noteq> []"
  obtain r rs where rs: "results = r # rs"
    using ne by (cases results) auto
  from a have "stmtError host InsertFeedStats db \<noteq> None"
    by blast
  then obtain e where "stmtError host InsertFeedStats db = Some e"
    by auto
  then show ?thesis
    using rs by simp
qed

text \<open>
  A statistics write that raises ends the run with exit code 1: when the feed_stats
  insert raises nothing is rendered; when the generation_history insert raises the
  run exits non-zero as well.
\<close>

theorem stat_write_failure_counterexample:
  "exitCode (main (exampleHost (exampleConfig 10 50 [exampleFeed ''A'']) (failingOn InsertFeedStats))
              (exampleEnv (Inr \<lparr>ParserOutput.items = [], title = None\<rparr>))) = 1
   \<and> written (main (exampleHost (exampleConfig 10 50 [exampleFeed ''A'']) (failingOn InsertFeedStats))
              (exampleEnv (Inr \<lparr>ParserOutput.items = [], title = None\<rparr>))) = None
   \<and> exitCode (main (exampleHost (exampleConfig 10 50 [exampleFeed ''A'']) (failingOn InsertGeneration))
              (exampleEnv (Inr \<lparr>ParserOutput.items = [], title = None\<rparr>))) = 1"
  by (simp add: main_def cleanOldEntries_def cutoffDate_def setDateBack_def timeClip_def
        isoBefore_def getProcessedUrls_def
        fetchAllFeeds_def feedRound_def fetchFeed_def fetchFeed_try_def List.map_filter_def
        eval_defs example_defs)

text \<open>
  C3, as amended. An error raised by a statistics write is not swallowed: it reaches the
  catch block of main and the process exits with code 1. When a recordFeedStats call
  raises, nothing has been rendered and no URL has been marked as processed; when the
  recordGeneration call raises, the newsletter has been written and the final items
  marked, and the run still exits with code 1.
\<close>

theorem stat_write_failure_is_fatal:
  "(fst (recordAllFeedStats host t (js_sort byPubDate (newItemsOf urls allItems)) results db) \<noteq> None \<longrightarrow>
      exitCode (mainAfterFetch host t config db urls results allItems) = 1
      \<and> written (mainAfterFetch host t config db urls results allItems) = None
      \<and> map_option processed_items (store (mainAfterFetch host t config db urls results allItems)) =
          Some (processed_items db))
   \<and> (recordAllFeedStats host t (js_sort byPubDate (newItemsOf urls allItems)) results db = (None, db2)
       \<and> writeNewsletter host (sortedItemsOf (maxTotalItems (newsletter config)) urls allItems) = None
       \<and> (if sortedItemsOf (maxTotalItems (newsletter config)) urls allItems \<noteq> []
           then stmtError host InsertProcessed db2 else None) = None
       \<and> stmtError host InsertGeneration
            (if sortedItemsOf (maxTotalItems (newsletter config)) urls allItems \<noteq> []
             then markMultipleAsProcessed t
                    (map toMarkItem (sortedItemsOf (maxTotalItems (newsletter config)) urls allItems)) db2
             else db2) \<noteq> None \<longrightarrow>
      exitCode (mainAfterFetch host t config db urls results allItems) = 1
      \<and> (\<exists>stats. written (mainAfterFetch host t config db urls results allItems) =
            Some (sortedItemsOf (maxTotalItems (newsletter config)) urls allItems, stats, results))
      \<and> store (mainAfterFetch host t config db urls results allItems) =
          Some (if sortedItemsOf (maxTotalItems (newsletter config)) urls allItems \<noteq> []
                then markMultipleAsProcessed t
                       (map toMarkItem (sortedItemsOf (maxTotalItems (newsletter config)) urls allItems)) db2
                else db2))
   \<and> (configFile host = Inr config \<and> openDatabase host = Inr db0
       \<and> cleanOldEntries (dates env) (now env) (retentionDays (newsletter config)) db0 = Inr (n, db1)
       \<and> stmtError host DeleteOld db0 = None \<and> stmtError host SelectUrls db1 = None
       \<and> filter enabled (feeds config) \<noteq> []
       \<and> stmtError host InsertFeedStats db1 \<noteq> None \<longrightarrow>
      exitCode (main host env) = 1 \<and> written (main host env) = None)"
proof (intro conjI impI)
  assume "fst (recordAllFeedStats host t (js_sort byPubDate (newItemsOf urls allItems)) results db) \<noteq> None"
  then obtain e dbx where r:
    "recordAllFeedStats host t (js_sort byPubDate (newItemsOf urls allItems)) results db = (Some e, dbx)"
    by (cases "recordAllFeedStats host t (js_sort byPubDate (newItemsOf urls allItems)) results db") auto
  have p: "processed_items dbx = processed_items db"
    using recordAllFeedStats_processed
      [of host t "js_sort byPubDate (newItemsOf urls allItems)" results db] r
    by simp
  from r p show "exitCode (mainAfterFetch host t config db urls results allItems) = 1"
    and "written (mainAfterFetch host t config db urls results allItems) = None"
    and "map_option processed_items (store (mainAfterFetch host t config db urls results allItems)) =
          Some (processed_items db)"
    by (simp_all add: mainAfterFetch_def Let_def fatal_def)
next
  let ?sel = "sortedItemsOf (maxTotalItems (newsletter config)) urls allItems"
  let ?db3 = "if ?sel \<noteq> [] then markMultipleAsProcessed t (map toMarkItem ?sel) db2 else db2"
  assume a: "recordAllFeedStats host t (js_sort byPubDate (newItemsOf urls allItems)) results db = (None, db2)
       \<and> writeNewsletter host ?sel = None
       \<and> (if ?sel \<noteq> [] then stmtError host InsertProcessed db2 else None) = None
       \<and> stmtError host InsertGeneration ?db3 \<noteq> None"
  then obtain e where e: "stmtError host InsertGeneration ?db3 = Some e"
    by auto
  from a have r: "recordAllFeedStats host t (js_sort byPubDate (newItemsOf urls allItems)) results db = (None, db2)"
    and w: "writeNewsletter host ?sel = None"
    and ip: "(if ?sel \<noteq> [] then stmtError host InsertProcessed db2 else None) = None"
    by simp_all
  have run: "mainAfterFetch host t config db urls results allItems =
      fatal (Some ?db3)
        (Some (?sel,
           \<lparr>totalFeeds = length results,
            successfulFeeds = length (filter FetchResult.success results),
            failedFeeds = length (filter (\<lambda>r. \<not> FetchResult.success r) results),
            newItems = length ?sel,
            duplicatesRemoved = duplicatesRemovedOf urls allItems,
            generatedAt = t\<rparr>, results))"
  proof (cases "?sel = []")
    case True
    with r w e show ?thesis
      by (simp add: mainAfterFetch_def Let_def)
  next
    case False
    with r w ip e show ?thesis
      by (simp add: mainAfterFetch_def Let_def)
  qed
  show "exitCode (mainAfterFetch host t config db urls results allItems) = 1"
    unfolding run by (simp add: fatal_def)
  show "\<exists>stats. written (mainAfterFetch host t config db urls results allItems) =
            Some (?sel, stats, results)"
    unfolding run by (simp add: fatal_def)
  show "store (mainAfterFetch host t config db urls results allItems) = Some ?db3"
    unfolding run by (simp add: fatal_def)
next
  assume a: "configFile host = Inr config \<and> openDatabase host = Inr db0
       \<and> cleanOldEntries (dates env) (now env) (retentionDays (newsletter config)) db0 = Inr (n, db1)
       \<and> stmtError host DeleteOld db0 = None \<and> stmtError host SelectUrls db1 = None
       \<and> filter enabled (feeds config) \<noteq> []
       \<and> stmtError host InsertFeedStats db1 \<noteq> None"
  let ?results = "fst (fetchAllFeeds env (feeds config) (maxItemsPerFeed (newsletter config)))"
  let ?all = "snd (fetchAllFeeds env (feeds config) (maxItemsPerFeed (newsletter config)))"
  have m: "main host env =
     mainAfterFetch host (now env) config db1 (getProcessedUrls db1) ?results ?all"
    using a main_reaches [of host config db0 env n db1] by simp
  have "length ?results = length (filter enabled (feeds config))"
    by (simp add: fetchAllFeeds_def length_fetchLoop)
  with a obtain r rs where rs: "?results = r # rs"
    by (cases ?results) auto
  from a obtain e where "stmtError host InsertFeedStats db1 = Some e"
    by auto
  then have "recordAllFeedStats host (now env)
       (js_sort byPubDate (newItemsOf (getProcessedUrls db1) ?all)) ?results db1 = (Some e, db1)"
    unfolding rs by simp
  then show "exitCode (main host env) = 1" and "written (main host env) = None"
    unfolding m by (simp_all add: mainAfterFetch_def Let_def fatal_def)
qed

theorem stat_write_failure_is_fatal_witness:
  "fst (recordAllFeedStats (exampleHost (exampleConfig 10 50 [exampleFeed ''A'']) statsFailing) 100
          (js_sort byPubDate (newItemsOf {} [])) [failedResult] emptyDatabase) \<noteq> None
   \<and> exitCode (mainAfterFetch (exampleHost (exampleConfig 10 50 [exampleFeed ''A'']) statsFailing)
         100 (exampleConfig 10 50 [exampleFeed ''A'']) emptyDatabase {} [failedResult] []) = 1
   \<and> written (mainAfterFetch (exampleHost (exampleConfig 10 50 [exampleFeed ''A'']) statsFailing)
         100 (exampleConfig 10 50 [exampleFeed ''A'']) emptyDatabase {} [failedResult] []) = None
   \<and> openDatabase (exampleHost (exampleConfig 10 50 [exampleFeed ''A'']) statsFailing) = Inr emptyDatabase
   \<and> cleanOldEntries (dates (exampleEnv (Inl (Error ''timeout''))))
        (now (exampleEnv (Inl (Error ''timeout''))))
        (retentionDays (newsletter (exampleConfig 10 50 [exampleFeed ''A''])))
        emptyDatabase = Inr (0, emptyDatabase)
   \<and> stmtError (exampleHost (exampleConfig 10 50 [exampleFeed ''A'']) statsFailing)
        InsertFeedStats emptyDatabase \<noteq> None
   \<and> filter enabled (feeds (exampleConfig 10 50 [exampleFeed ''A''])) \<noteq> []
   \<and> exitCode (main (exampleHost (exampleConfig 10 50 [exampleFeed ''A'']) statsFailing)
         (exampleEnv (Inl (Error ''timeout'')))) = 1
   \<and> written (main (exampleHost (exampleConfig 10 50 [exampleFeed ''A'']) statsFailing)
         (exampleEnv (Inl (Error ''timeout'')))) = None
   \<and> recordAllFeedStats
        (exampleHost (exampleConfig 10 50 [exampleFeed ''A'']) (failingOn InsertGeneration)) 100
        (js_sort byPubDate (newItemsOf {} twoItems)) [okResult] emptyDatabase =
        (None, afterFeedStats)
   \<and> writeNewsletter (exampleHost (exampleConfig 10 50 [exampleFeed ''A'']) (failingOn InsertGeneration))
        (sortedItemsOf 50 {} twoItems) = None
   \<and> stmtError (exampleHost (exampleConfig 10 50 [exampleFeed ''A'']) (failingOn InsertGeneration))
        InsertGeneration
        (markMultipleAsProcessed 100 (map toMarkItem (sortedItemsOf 50 {} twoItems)) afterFeedStats)
        \<noteq> None
   \<and> exitCode (mainAfterFetch
         (exampleHost (exampleConfig 10 50 [exampleFeed ''A'']) (failingOn InsertGeneration))
         100 (exampleConfig 10 50 [exampleFeed ''A'']) emptyDatabase {} [okResult] twoItems) = 1
   \<and> store (mainAfterFetch
         (exampleHost (exampleConfig 10 50 [exampleFeed ''A'']) (failingOn InsertGeneration))
         100 (exampleConfig 10 50 [exampleFeed ''A'']) emptyDatabase {} [okResult] twoItems) =
       Some (markMultipleAsProcessed 100 (map toMarkItem (sortedItemsOf 50 {} twoItems)) afterFeedStats)"
  using stat_write_failure_is_fatal
    [where host = "exampleHost (exampleConfig 10 50 [exampleFeed ''A'']) statsFailing"
       and t = 100 and urls = "{}" and allItems = "[]" and results = "[failedResult]"
       and db = emptyDatabase and config = "exampleConfig 10 50 [exampleFeed ''A'']"
       and ?db2.0 = emptyDatabase and ?db0.0 = emptyDatabase
       and env = "exampleEnv (Inl (Error ''timeout''))" and n = 0 and ?db1.0 = emptyDatabase]
    stat_write_failure_is_fatal
    [where host = "exampleHost (exampleConfig 10 50 [exampleFeed ''A'']) (failingOn InsertGeneration)"
       and t = 100 and urls = "{}" and allItems = twoItems and results = "[okResult]"
       and db = emptyDatabase and config = "exampleConfig 10 50 [exampleFeed ''A'']"
       and ?db2.0 = afterFeedStats and ?db0.0 = emptyDatabase
       and env = "exampleEnv (Inl (Error ''timeout''))" and n = 0 and ?db1.0 = emptyDatabase]
  by (simp add: fetch_defs eval_defs example_defs statsFailing_def failedResult_def
        okResult_def afterFeedStats_def)

lemma sortedItemsOf_bound:
  "0 \<le> maxTotal \<Longrightarrow> int (length (sortedItemsOf maxTotal urls allItems)) \<le> maxTotal"
  by (simp add: sortedItemsOf_length)

text \<open>
  With a total cap of \<open>-1\<close> the slice drops the last item only: of two new items one is
  kept, which is more than the cap.
\<close>

theorem total_cap_counterexample:
  "sortedItemsOf (- 1) {} twoItems = [exampleItem ''A'' ''u1'' (Some 2)]
   \<and> \<not> int (length (sortedItemsOf (- 1) {} twoItems)) \<le> - 1"
  by (simp add: eval_defs example_defs)

text \<open>
  C7, as amended. For every input and every total cap that is not negative the final item
  list has at most that many items, in the selection and in what a run of main hands to
  writeNewsletter; a cap of zero gives the empty list, and a run with that cap and no
  failure around it (the configuration loads, the store opens, the cutoff of the eviction
  is a valid Date, no statement and no file operation raises) completes with exit code 0
  and an empty newsletter.
\<close>

theorem total_cap:
  "(0 \<le> maxTotal \<longrightarrow> int (length (sortedItemsOf maxTotal urls allItems)) \<le> maxTotal)
   \<and> sortedItemsOf 0 urls allItems = []
   \<and> (written (main host env) = Some (its, stats, res) \<and> configFile host = Inr config
        \<and> 0 \<le> maxTotalItems (newsletter config) \<longrightarrow>
        int (length its) \<le> maxTotalItems (newsletter config))
   \<and> (configFile host = Inr config \<and> openDatabase host = Inr db0
        \<and> cutoffDate (dates env) (now env) (retentionDays (newsletter config)) \<noteq> None
        \<and> (\<forall>s db. stmtError host s db = None) \<and> writeError host = None
        \<and> maxTotalItems (newsletter config) = 0 \<longrightarrow>
        exitCode (main host env) = 0 \<and> closed (main host env)
        \<and> (\<exists>stats' res'. written (main host env) = Some ([], stats', res')))"
proof (intro conjI impI)
  show "sortedItemsOf 0 urls allItems = []"
    by (simp add: sortedItemsOf_def js_slice0_zero)
next
  assume "0 \<le> maxTotal"
  then show "int (length (sortedItemsOf maxTotal urls allItems)) \<le> maxTotal"
    by (rule sortedItemsOf_bound)
next
  assume a: "written (main host env) = Some (its, stats, res) \<and> configFile host = Inr config
        \<and> 0 \<le> maxTotalItems (newsletter config)"
  then obtain config' db1 where c: "configFile host = Inr config'"
    and m: "main host env =
       mainAfterFetch host (now env) config' db1 (getProcessedUrls db1)
         (fst (fetchAllFeeds env (feeds config') (maxItemsPerFeed (newsletter config'))))
         (snd (fetchAllFeeds env (feeds config') (maxItemsPerFeed (newsletter config'))))"
    using main_written by blast
  from c a have cc: "config' = config" by simp
  from a m have "written (mainAfterFetch host (now env) config' db1 (getProcessedUrls db1)
         (fst (fetchAllFeeds env (feeds config') (maxItemsPerFeed (newsletter config'))))
         (snd (fetchAllFeeds env (feeds config') (maxItemsPerFeed (newsletter config'))))) =
       Some (its, stats, res)"
    by simp
  from mainAfterFetch_written [OF this]
  have "its = sortedItemsOf (maxTotalItems (newsletter config)) (getProcessedUrls db1)
         (snd (fetchAllFeeds env (feeds config) (maxItemsPerFeed (newsletter config))))"
    using cc by simp
  moreover from a have "0 \<le> maxTotalItems (newsletter config)"
    by simp
  ultimately show "int (length its) \<le> maxTotalItems (newsletter config)"
    using sortedItemsOf_bound by blast
next
  assume a: "configFile host = Inr config \<and> openDatabase host = Inr db0
        \<and> cutoffDate (dates env) (now env) (retentionDays (newsletter config)) \<noteq> None
        \<and> (\<forall>s db. stmtError host s db = None) \<and> writeError host = None
        \<and> maxTotalItems (newsletter config) = 0"
  then obtain n db1 where
    "cleanOldEntries (dates env) (now env) (retentionDays (newsletter config)) db0 = Inr (n, db1)"
    using cleanOldEntries_returns by blast
  with a have m: "main host env =
     mainAfterFetch host (now env) config db1 (getProcessedUrls db1)
       (fst (fetchAllFeeds env (feeds config) (maxItemsPerFeed (newsletter config))))
       (snd (fetchAllFeeds env (feeds config) (maxItemsPerFeed (newsletter config))))"
    using main_reaches [of host config db0 env n db1] by simp
  from a have z: "\<forall>s db. stmtError host s db = None" "writeError host = None"
    "maxTotalItems (newsletter config) = 0"
    by simp_all
  from mainAfterFetch_cap_zero [OF z]
  show "exitCode (main host env) = 0" and "closed (main host env)"
    and "\<exists>stats' res'. written (main host env) = Some ([], stats', res')"
    unfolding m by blast+
qed

theorem total_cap_witness:
  "(0::int) \<le> 1 \<and> int (length (sortedItemsOf 1 {} twoItems)) \<le> 1
   \<and> configFile (exampleHost (exampleConfig 10 0 [exampleFeed ''A'']) noError) =
       Inr (exampleConfig 10 0 [exampleFeed ''A''])
   \<and> openDatabase (exampleHost (exampleConfig 10 0 [exampleFeed ''A'']) noError) = Inr emptyDatabase
   \<and> cutoffDate
        (dates (exampleEnv (Inr \<lparr>ParserOutput.items = [exampleParserItem ''u1'' ''1970-01-01T00:00:00.001Z''], title = None\<rparr>)))
        (now (exampleEnv (Inr \<lparr>ParserOutput.items = [exampleParserItem ''u1'' ''1970-01-01T00:00:00.001Z''], title = None\<rparr>)))
        (retentionDays (newsletter (exampleConfig 10 0 [exampleFeed ''A'']))) = Some (- 2591999900)
   \<and> (\<forall>s db. stmtError (exampleHost (exampleConfig 10 0 [exampleFeed ''A'']) noError) s db = None)
   \<and> writeError (exampleHost (exampleConfig 10 0 [exampleFeed ''A'']) noError) = None
   \<and> maxTotalItems (newsletter (exampleConfig 10 0 [exampleFeed ''A''])) = 0
   \<and> written (main (exampleHost (exampleConfig 10 0 [exampleFeed ''A'']) noError)
        (exampleEnv (Inr \<lparr>ParserOutput.items = [exampleParserItem ''u1'' ''1970-01-01T00:00:00.001Z''], title = None\<rparr>))) =
       Some ([],
         \<lparr>totalFeeds = 1, successfulFeeds = 1, failedFeeds = 0, newItems = 0,
          duplicatesRemoved = 0, generatedAt = 100\<rparr>,
         [\<lparr>FetchResult.feedName = ''A'', success = True,
           items = [\<lparr>FeedItem.id = ''u1'', title = ''u1'', link = ''u1'', description = [],
                     pubDate = Some 1, feedName = ''A'', category = ''News'', author = None\<rparr>],
           error = None\<rparr>])
   \<and> exitCode (main (exampleHost (exampleConfig 10 0 [exampleFeed ''A'']) noError)
        (exampleEnv (Inr \<lparr>ParserOutput.items = [exampleParserItem ''u1'' ''1970-01-01T00:00:00.001Z''], title = None\<rparr>))) = 0"
  using total_cap
    [of 1 "{}" twoItems "exampleHost (exampleConfig 10 0 [exampleFeed ''A'']) noError"
        "exampleEnv (Inr \<lparr>ParserOutput.items = [exampleParserItem ''u1'' ''1970-01-01T00:00:00.001Z''], title = None\<rparr>)"
        "[]"
        "\<lparr>totalFeeds = 1, successfulFeeds = 1, failedFeeds = 0, newItems = 0,
          duplicatesRemoved = 0, generatedAt = 100\<rparr>"
        "[\<lparr>FetchResult.feedName = ''A'', success = True,
           items = [\<lparr>FeedItem.id = ''u1'', title = ''u1'', link = ''u1'', description = [],
                     pubDate = Some 1, feedName = ''A'', category = ''News'', author = None\<rparr>],
           error = None\<rparr>]"
        "exampleConfig 10 0 [exampleFeed ''A'']" emptyDatabase]
  by (simp add: fetch_defs eval_defs example_defs)

text \<open>
  C8 at a feed whose first item carries a publication date that is no date: the item gets
  an Invalid Date, the comparator returns NaN for the pair, the final list keeps the item
  next to a dated one, and the comparison of the two timestamps is false. The run then
  ends with exit code 1, when the renderer calls toISOString on the Invalid Date.
\<close>

theorem ordering_fails_on_invalid_date:
  "map FeedItem.pubDate
     (snd (fetchAllFeeds
        (exampleEnv (Inr \<lparr>ParserOutput.items =
           [exampleParserItem ''u1'' ''soon'', exampleParserItem ''u2'' ''1970-01-01T00:00:00.001Z''], title = None\<rparr>))
        [exampleFeed ''A''] 10)) = [None, Some 1]
   \<and> map FeedItem.link
     (sortedItemsOf 50 {}
       (snd (fetchAllFeeds
        (exampleEnv (Inr \<lparr>ParserOutput.items =
           [exampleParserItem ''u1'' ''soon'', exampleParserItem ''u2'' ''1970-01-01T00:00:00.001Z''], title = None\<rparr>))
        [exampleFeed ''A''] 10))) = [''u1'', ''u2'']
   \<and> \<not> nonIncreasing
     (sortedItemsOf 50 {}
       (snd (fetchAllFeeds
        (exampleEnv (Inr \<lparr>ParserOutput.items =
           [exampleParserItem ''u1'' ''soon'', exampleParserItem ''u2'' ''1970-01-01T00:00:00.001Z''], title = None\<rparr>))
        [exampleFeed ''A''] 10)))
   \<and> exitCode (main (exampleHost (exampleConfig 10 50 [exampleFeed ''A'']) noError)
        (exampleEnv (Inr \<lparr>ParserOutput.items =
           [exampleParserItem ''u1'' ''soon'', exampleParserItem ''u2'' ''1970-01-01T00:00:00.001Z''], title = None\<rparr>))) = 1"
  by (simp add: fetch_defs eval_defs example_defs js_ge_def)

section \<open>Properties of the fetcher and of two runs in a row\<close>

lemma fetchLoop_results:
  "map FetchResult.feedName (fst (fetchLoop env k fds)) = map name fds"
  by (induction fds)
     (auto simp: Let_def feedRound_def fetchFeed_def fetchFeed_try_def
           split: prod.splits sum.splits)

text \<open>
  C9. Whatever parseURL throws inside the try block of fetchFeed is caught there: the
  result is a FetchResult with success false, no items and the error message. The error
  field is present exactly when the fetch failed, a failed fetch has no items, the fetch
  succeeds exactly when parseURL returns a feed, and fetchAllFeeds has one result for
  every enabled feed, failed or not.
\<close>

theorem fetchFeed_isolates_failure:
  "(parseURL env (FeedConfig.url cfg) = Inl e \<longrightarrow>
      fetchFeed_try env cfg = Inl e
      \<and> fetchFeed env cfg =
          \<lparr>FetchResult.feedName = name cfg, success = False, items = [],
           error = Some (errorMessage e)\<rparr>)
   \<and> (FetchResult.error (fetchFeed env cfg) \<noteq> None) = (\<not> FetchResult.success (fetchFeed env cfg))
   \<and> (\<not> FetchResult.success (fetchFeed env cfg) \<longrightarrow> FetchResult.items (fetchFeed env cfg) = [])
   \<and> FetchResult.success (fetchFeed env cfg) = (\<exists>feed. parseURL env (FeedConfig.url cfg) = Inr feed)
   \<and> FetchResult.feedName (fetchFeed env cfg) = name cfg
   \<and> map FetchResult.feedName (fst (fetchAllFeeds env fds k)) = map name (filter enabled fds)"
proof (intro conjI impI)
  assume "parseURL env (FeedConfig.url cfg) = Inl e"
  then show "fetchFeed_try env cfg = Inl e"
    and "fetchFeed env cfg =
          \<lparr>FetchResult.feedName = name cfg, success = False, items = [],
           error = Some (errorMessage e)\<rparr>"
    by (simp_all add: fetchFeed_def fetchFeed_try_def)
next
  show "(FetchResult.error (fetchFeed env cfg) \<noteq> None) = (\<not> FetchResult.success (fetchFeed env cfg))"
    by (cases "parseURL env (FeedConfig.url cfg)") (simp_all add: fetchFeed_def fetchFeed_try_def)
  show "FetchResult.success (fetchFeed env cfg) = (\<exists>feed. parseURL env (FeedConfig.url cfg) = Inr feed)"
    by (cases "parseURL env (FeedConfig.url cfg)") (simp_all add: fetchFeed_def fetchFeed_try_def)
  show "FetchResult.feedName (fetchFeed env cfg) = name cfg"
    by (cases "parseURL env (FeedConfig.url cfg)") (simp_all add: fetchFeed_def fetchFeed_try_def)
  show "map FetchResult.feedName (fst (fetchAllFeeds env fds k)) = map name (filter enabled fds)"
    by (simp add: fetchAllFeeds_def fetchLoop_results)
next
  assume "\<not> FetchResult.success (fetchFeed env cfg)"
  then show "FetchResult.items (fetchFeed env cfg) = []"
    by (cases "parseURL env (FeedConfig.url cfg)") (simp_all add: fetchFeed_def fetchFeed_try_def)
qed

theorem fetchFeed_isolates_failure_witness:
  "parseURL (exampleEnv (Inl (Error ''timeout''))) (FeedConfig.url (exampleFeed ''A'')) =
     Inl (Error ''timeout'')
   \<and> fetchFeed (exampleEnv (Inl (Error ''timeout''))) (exampleFeed ''A'') =
       \<lparr>FetchResult.feedName = ''A'', success = False, items = [], error = Some ''timeout''\<rparr>
   \<and> fetchFeed (exampleEnv (Inl NonError)) (exampleFeed ''A'') =
       \<lparr>FetchResult.feedName = ''A'', success = False, items = [], error = Some ''Unknown error''\<rparr>"
  using fetchFeed_isolates_failure
    [of "exampleEnv (Inl (Error ''timeout''))" "exampleFeed ''A''" "Error ''timeout''" "[]" 10]
  by (simp add: example_defs fetchFeed_def fetchFeed_try_def errorMessage_def)

lemma second_run_newItems:
  "newItemsOf
     (getProcessedUrls (markMultipleAsProcessed t (map toMarkItem sel) db)) allItems =
   filter (\<lambda>i. FeedItem.link i \<notin> FeedItem.link ` set sel)
     (newItemsOf (getProcessedUrls db) allItems)"
proof -
  have "getProcessedUrls (markMultipleAsProcessed t (map toMarkItem sel) db) =
        getProcessedUrls db \<union> FeedItem.link ` set sel"
    by (simp add: getProcessedUrls_def markMultipleAsProcessed_def insertMany_urls
          image_image toMarkItem_def)
  then show ?thesis
    by (auto simp: newItemsOf_def intro: filter_cong)
qed

lemma sortedItemsOf_all:
  "0 \<le> maxTotal \<Longrightarrow> int (length (newItemsOf urls allItems)) \<le> maxTotal \<Longrightarrow>
   set (sortedItemsOf maxTotal urls allItems) = set (newItemsOf urls allItems)"
  by (simp add: sortedItemsOf_def js_slice0_nonneg length_js_sort set_js_sort)

lemma mainAfterFetch_store_processed:
  assumes "exitCode (mainAfterFetch host t config db urls results allItems) = 0"
    and "store (mainAfterFetch host t config db urls results allItems) = Some db'"
  shows "processed_items db' =
     processed_items
       (markMultipleAsProcessed t
          (map toMarkItem (sortedItemsOf (maxTotalItems (newsletter config)) urls allItems)) db)"
proof -
  obtain r db2 where rec: "recordAllFeedStats host t
      (js_sort byPubDate (newItemsOf urls allItems)) results db = (r, db2)"
    by (cases "recordAllFeedStats host t (js_sort byPubDate (newItemsOf urls allItems)) results db")
  have p: "processed_items db2 = processed_items db"
    using recordAllFeedStats_processed [of host t "js_sort byPubDate (newItemsOf urls allItems)" results db]
      rec by simp
  show ?thesis
    using assms rec p
    by (auto simp: mainAfterFetch_def Let_def fatal_def markMultipleAsProcessed_def
          recordGeneration_def split: option.splits if_splits)
qed

text \<open>
  A second run is not always empty: with two new items and a total cap of one, only the
  selected item is marked as processed, and the other one is new again in the second run.
\<close>

theorem second_run_counterexample:
  "newItemsOf
     (getProcessedUrls
        (markMultipleAsProcessed 100
           (map toMarkItem (sortedItemsOf 1 (getProcessedUrls emptyDatabase) twoItems))
           emptyDatabase))
     twoItems = [exampleItem ''A'' ''u2'' (Some 1)]"
  by (simp add: eval_defs example_defs getProcessedUrls_def)

text \<open>
  C2, as amended. When the items that survive the dedup of the first run all fit in the
  total cap (a cap that is not negative), then after the first run has marked its final
  items the same item list has no new items, for the store-level update and for the store
  a completed run of main leaves. In general the new items of the second run are the
  survivors of the first whose link is not the link of a selected item.
\<close>

theorem second_run_no_new_items:
  "(0 \<le> maxTotal \<and> int (length (newItemsOf (getProcessedUrls db) allItems)) \<le> maxTotal \<longrightarrow>
      newItemsOf
        (getProcessedUrls
           (markMultipleAsProcessed t
              (map toMarkItem (sortedItemsOf maxTotal (getProcessedUrls db) allItems)) db))
        allItems = [])
   \<and> newItemsOf
        (getProcessedUrls
           (markMultipleAsProcessed t
              (map toMarkItem (sortedItemsOf maxTotal (getProcessedUrls db) allItems)) db))
        allItems =
      filter (\<lambda>i. FeedItem.link i \<notin>
                   FeedItem.link ` set (sortedItemsOf maxTotal (getProcessedUrls db) allItems))
        (newItemsOf (getProcessedUrls db) allItems)
   \<and> (exitCode (mainAfterFetch host t config db (getProcessedUrls db) results allItems) = 0
       \<and> store (mainAfterFetch host t config db (getProcessedUrls db) results allItems) = Some db'
       \<and> 0 \<le> maxTotalItems (newsletter config)
       \<and> int (length (newItemsOf (getProcessedUrls db) allItems)) \<le> maxTotalItems (newsletter config)
       \<longrightarrow> newItemsOf (getProcessedUrls db') allItems = [])"
proof -
  have gen: "\<And>c. newItemsOf
        (getProcessedUrls
           (markMultipleAsProcessed t
              (map toMarkItem (sortedItemsOf c (getProcessedUrls db) allItems)) db))
        allItems =
      filter (\<lambda>i. FeedItem.link i \<notin>
                   FeedItem.link ` set (sortedItemsOf c (getProcessedUrls db) allItems))
        (newItemsOf (getProcessedUrls db) allItems)"
    by (rule second_run_newItems)
  have fit: "\<And>c. 0 \<le> c \<Longrightarrow> int (length (newItemsOf (getProcessedUrls db) allItems)) \<le> c \<Longrightarrow>
      newItemsOf
        (getProcessedUrls
           (markMultipleAsProcessed t
              (map toMarkItem (sortedItemsOf c (getProcessedUrls db) allItems)) db))
        allItems = []"
  proof -
    fix c :: int
    assume c: "0 \<le> c" "int (length (newItemsOf (getProcessedUrls db) allItems)) \<le> c"
    have "set (sortedItemsOf c (getProcessedUrls db) allItems) =
          set (newItemsOf (getProcessedUrls db) allItems)"
      using c by (rule sortedItemsOf_all)
    then show "newItemsOf
        (getProcessedUrls
           (markMultipleAsProcessed t
              (map toMarkItem (sortedItemsOf c (getProcessedUrls db) allItems)) db))
        allItems = []"
      unfolding gen by (auto simp: filter_empty_conv)
  qed
  have run: "exitCode (mainAfterFetch host t config db (getProcessedUrls db) results allItems) = 0
       \<and> store (mainAfterFetch host t config db (getProcessedUrls db) results allItems) = Some db'
       \<and> 0 \<le> maxTotalItems (newsletter config)
       \<and> int (length (newItemsOf (getProcessedUrls db) allItems)) \<le> maxTotalItems (newsletter config)
       \<longrightarrow> newItemsOf (getProcessedUrls db') allItems = []"
  proof
    assume a: "exitCode (mainAfterFetch host t config db (getProcessedUrls db) results allItems) = 0
       \<and> store (mainAfterFetch host t config db (getProcessedUrls db) results allItems) = Some db'
       \<and> 0 \<le> maxTotalItems (newsletter config)
       \<and> int (length (newItemsOf (getProcessedUrls db) allItems)) \<le> maxTotalItems (newsletter config)"
    then have "processed_items db' =
       processed_items
         (markMultipleAsProcessed t
            (map toMarkItem
               (sortedItemsOf (maxTotalItems (newsletter config)) (getProcessedUrls db) allItems)) db)"
      using mainAfterFetch_store_processed by blast
    then have "getProcessedUrls db' =
       getProcessedUrls
         (markMultipleAsProcessed t
            (map toMarkItem
               (sortedItemsOf (maxTotalItems (newsletter config)) (getProcessedUrls db) allItems)) db)"
      by (simp add: getProcessedUrls_def)
    then show "newItemsOf (getProcessedUrls db') allItems = []"
      using fit a by simp
  qed
  show ?thesis
    using gen fit run by blast
qed

theorem second_run_no_new_items_witness:
  "(0::int) \<le> 2 \<and> int (length (newItemsOf (getProcessedUrls emptyDatabase) twoItems)) \<le> 2
   \<and> exitCode (mainAfterFetch (exampleHost (exampleConfig 10 2 []) noError) 100
        (exampleConfig 10 2 []) emptyDatabase (getProcessedUrls emptyDatabase) [] twoItems) = 0
   \<and> store (mainAfterFetch (exampleHost (exampleConfig 10 2 []) noError) 100
        (exampleConfig 10 2 []) emptyDatabase (getProcessedUrls emptyDatabase) [] twoItems) =
      Some \<lparr>processed_items =
              [\<lparr>processed_items_row.url = ''u1'', feed_name = ''A'', processed_at = 100, title = Some ''u1''\<rparr>,
               \<lparr>processed_items_row.url = ''u2'', feed_name = ''A'', processed_at = 100, title = Some ''u2''\<rparr>],
            feed_stats = [],
            generation_history =
              [\<lparr>generated_at = 100, total_feeds = 0, successful_feeds = 0, failed_feeds = 0,
                new_items = 2, duplicates_removed = 0\<rparr>]\<rparr>
   \<and> newItemsOf
        (getProcessedUrls
          \<lparr>processed_items =
              [\<lparr>processed_items_row.url = ''u1'', feed_name = ''A'', processed_at = 100, title = Some ''u1''\<rparr>,
               \<lparr>processed_items_row.url = ''u2'', feed_name = ''A'', processed_at = 100, title = Some ''u2''\<rparr>],
            feed_stats = [],
            generation_history =
              [\<lparr>generated_at = 100, total_feeds = 0, successful_feeds = 0, failed_feeds = 0,
                new_items = 2, duplicates_removed = 0\<rparr>]\<rparr>)
        twoItems = []"
  using second_run_no_new_items
    [of 2 emptyDatabase twoItems 100 "exampleHost (exampleConfig 10 2 []) noError"
        "exampleConfig 10 2 []" "[]"
        "\<lparr>processed_items =
              [\<lparr>processed_items_row.url = ''u1'', feed_name = ''A'', processed_at = 100, title = Some ''u1''\<rparr>,
               \<lparr>processed_items_row.url = ''u2'', feed_name = ''A'', processed_at = 100, title = Some ''u2''\<rparr>],
            feed_stats = [],
            generation_history =
              [\<lparr>generated_at = 100, total_feeds = 0, successful_feeds = 0, failed_feeds = 0,
                new_items = 2, duplicates_removed = 0\<rparr>]\<rparr>"]
  by (simp add: eval_defs example_defs getProcessedUrls_def)

lemma feedRound_snd:
  "snd (feedRound env k feed) =
     (if FetchResult.success (fetchFeed env feed)
      then js_slice0 k (js_sort byPubDate (FetchResult.items (fetchFeed env feed))) else [])"
  by (simp add: feedRound_def Let_def)

lemma fetchLoop_concat:
  "snd (fetchLoop env k fds) = concat (map (\<lambda>f. snd (feedRound env k f)) fds)"
  by (induction fds) (auto simp: Let_def split: prod.splits)

lemma toFeedItem_feedName:
  "toFeedItem env cfg feed item = Some i \<Longrightarrow> FeedItem.feedName i = name cfg"
  by (auto simp: toFeedItem_def split: option.splits if_splits)

lemma in_map_filter:
  "y \<in> set (List.map_filter f xs) \<Longrightarrow> \<exists>x \<in> set xs. f x = Some y"
  by (induction xs) (auto split: option.splits)

lemma fetchFeed_items_feedName:
  "i \<in> set (FetchResult.items (fetchFeed env cfg)) \<Longrightarrow> FeedItem.feedName i = name cfg"
  by (cases "parseURL env (FeedConfig.url cfg)")
     (auto simp: fetchFeed_def fetchFeed_try_def dest!: in_map_filter dest: toFeedItem_feedName)

lemma feedRound_feedName:
  "i \<in> set (snd (feedRound env k feed)) \<Longrightarrow> FeedItem.feedName i = name feed"
proof -
  assume i: "i \<in> set (snd (feedRound env k feed))"
  then have "i \<in> set (js_sort byPubDate (FetchResult.items (fetchFeed env feed)))"
    using js_slice0_subset [of k "js_sort byPubDate (FetchResult.items (fetchFeed env feed))"]
    by (auto simp: feedRound_snd split: if_splits)
  then show ?thesis
    by (simp add: set_js_sort fetchFeed_items_feedName)
qed

lemma js_slice0_bound: "0 \<le> e \<Longrightarrow> int (length (js_slice0 e xs)) \<le> e"
  by (simp add: js_slice0_length)

lemma feedRound_length:
  "0 \<le> k \<Longrightarrow> int (length (snd (feedRound env k feed))) \<le> k"
  by (simp add: feedRound_snd js_slice0_bound)

lemma fetchLoop_other_name:
  "n \<notin> name ` set fds \<Longrightarrow>
   filter (\<lambda>i. FeedItem.feedName i = n) (snd (fetchLoop env k fds)) = []"
  by (auto simp: fetchLoop_concat filter_empty_conv dest: feedRound_feedName)

lemma fetchLoop_per_name:
  "0 \<le> k \<Longrightarrow> distinct (map name fds) \<Longrightarrow>
   int (length (filter (\<lambda>i. FeedItem.feedName i = n) (snd (fetchLoop env k fds)))) \<le> k"
proof (induction fds)
  case Nil
  then show ?case by simp
next
  case (Cons f fs)
  have split: "filter (\<lambda>i. FeedItem.feedName i = n) (snd (fetchLoop env k (f # fs))) =
      filter (\<lambda>i. FeedItem.feedName i = n) (snd (feedRound env k f)) @
      filter (\<lambda>i. FeedItem.feedName i = n) (snd (fetchLoop env k fs))"
    unfolding fetchLoop_concat by simp
  show ?case
  proof (cases "name f = n")
    case True
    then have "n \<notin> name ` set fs"
      using Cons.prems by auto
    then have "filter (\<lambda>i. FeedItem.feedName i = n) (snd (fetchLoop env k fs)) = []"
      by (rule fetchLoop_other_name)
    moreover have "int (length (filter (\<lambda>i. FeedItem.feedName i = n) (snd (feedRound env k f))))
        \<le> k"
    proof -
      have "int (length (filter (\<lambda>i. FeedItem.feedName i = n) (snd (feedRound env k f))))
          \<le> int (length (snd (feedRound env k f)))"
        by simp
      also have "\<dots> \<le> k"
        using Cons.prems(1) by (rule feedRound_length)
      finally show ?thesis .
    qed
    ultimately show ?thesis
      unfolding split by simp
  next
    case False
    then have "filter (\<lambda>i. FeedItem.feedName i = n) (snd (feedRound env k f)) = []"
      by (auto simp: filter_empty_conv dest: feedRound_feedName)
    then show ?thesis
      unfolding split using Cons by simp
  qed
qed

lemma kept_most_recent:
  assumes k: "0 \<le> k" and v: "validDates its"
  shows "\<exists>dropped.
      js_sort byPubDate its = js_slice0 k (js_sort byPubDate its) @ dropped
      \<and> mset (js_slice0 k (js_sort byPubDate its) @ dropped) = mset its
      \<and> sorted_wrt (\<lambda>a b. timeOf b \<le> timeOf a) (js_slice0 k (js_sort byPubDate its) @ dropped)
      \<and> (\<forall>t. filter (\<lambda>i. timeOf i = t) (js_slice0 k (js_sort byPubDate its) @ dropped) =
                filter (\<lambda>i. timeOf i = t) its)
      \<and> length (js_slice0 k (js_sort byPubDate its)) = min (nat k) (length its)"
proof -
  let ?s = "js_sort byPubDate its"
  have eq: "js_slice0 k ?s @ drop (nat k) ?s = ?s"
    using k by (simp add: js_slice0_nonneg)
  have "mset ?s = mset its"
    by (rule mset_js_sort)
  moreover have "sorted_wrt (\<lambda>a b. timeOf b \<le> timeOf a) ?s"
    using v by (rule js_sort_sorted)
  moreover have "\<forall>t. filter (\<lambda>i. timeOf i = t) ?s = filter (\<lambda>i. timeOf i = t) its"
    using v by (simp add: js_sort_stable)
  moreover have "length (js_slice0 k ?s) = min (nat k) (length its)"
    using k by (simp add: js_slice0_length length_js_sort)
  ultimately show ?thesis
    using eq by (intro exI [of _ "drop (nat k) ?s"]) simp
qed

text \<open>
  With a per-feed cap of \<open>-1\<close> a feed of two items contributes one item, more than the
  cap; and with a cap of one, a feed whose first item has an Invalid Date contributes
  that item rather than the dated one.
\<close>

theorem per_feed_cap_counterexample:
  "map FeedItem.link
     (snd (feedRound
        (exampleEnv (Inr \<lparr>ParserOutput.items =
           [exampleParserItem ''u1'' ''1970-01-01T00:00:00.001Z'',
            exampleParserItem ''u2'' ''1970-01-01T00:00:00.002Z''], title = None\<rparr>))
        (- 1) (exampleFeed ''A''))) = [''u2'']
   \<and> \<not> int (length
     (snd (feedRound
        (exampleEnv (Inr \<lparr>ParserOutput.items =
           [exampleParserItem ''u1'' ''1970-01-01T00:00:00.001Z'',
            exampleParserItem ''u2'' ''1970-01-01T00:00:00.002Z''], title = None\<rparr>))
        (- 1) (exampleFeed ''A'')))) \<le> - 1
   \<and> map FeedItem.pubDate
     (FetchResult.items (fetchFeed
        (exampleEnv (Inr \<lparr>ParserOutput.items =
           [exampleParserItem ''u1'' ''soon'',
            exampleParserItem ''u2'' ''1970-01-01T00:00:00.002Z''], title = None\<rparr>))
        (exampleFeed ''A''))) = [None, Some 2]
   \<and> map FeedItem.pubDate
     (snd (feedRound
        (exampleEnv (Inr \<lparr>ParserOutput.items =
           [exampleParserItem ''u1'' ''soon'',
            exampleParserItem ''u2'' ''1970-01-01T00:00:00.002Z''], title = None\<rparr>))
        1 (exampleFeed ''A''))) = [None]"
  by (simp add: fetch_defs eval_defs example_defs)

text \<open>
  C6, as amended. For every per-feed cap \<open>k\<close> that is not negative, a feed contributes at
  most \<open>k\<close> items to allItems, the list that is later deduplicated against the processed
  URLs (allItems is the concatenation of the capped contributions of the enabled feeds,
  and when the enabled feeds have different names no feed name occurs more than \<open>k\<close>
  times in it). When the feed's items all have valid dates, the items kept are the first
  \<open>k\<close> of the feed's items in order of descending publication date, items of equal date
  staying in fetch order: kept and dropped items together are the feed's items, sorted,
  with every group of equal date in its original order.
\<close>

theorem per_feed_cap:
  "(0 \<le> k \<longrightarrow> int (length (snd (feedRound env k feed))) \<le> k)
   \<and> snd (fetchAllFeeds env fds k) =
       concat (map (\<lambda>f. snd (feedRound env k f)) (filter enabled fds))
   \<and> (0 \<le> k \<and> distinct (map name (filter enabled fds)) \<longrightarrow>
       int (length (filter (\<lambda>i. FeedItem.feedName i = n) (snd (fetchAllFeeds env fds k)))) \<le> k)
   \<and> (0 \<le> k \<and> FetchResult.success (fetchFeed env feed)
        \<and> validDates (FetchResult.items (fetchFeed env feed)) \<longrightarrow>
       (\<exists>dropped.
          mset (snd (feedRound env k feed) @ dropped) = mset (FetchResult.items (fetchFeed env feed))
          \<and> sorted_wrt (\<lambda>a b. timeOf b \<le> timeOf a) (snd (feedRound env k feed) @ dropped)
          \<and> (\<forall>t. filter (\<lambda>i. timeOf i = t) (snd (feedRound env k feed) @ dropped) =
                    filter (\<lambda>i. timeOf i = t) (FetchResult.items (fetchFeed env feed)))
          \<and> length (snd (feedRound env k feed)) =
              min (nat k) (length (FetchResult.items (fetchFeed env feed)))))"
proof (intro conjI impI)
  assume "0 \<le> k"
  then show "int (length (snd (feedRound env k feed))) \<le> k"
    by (rule feedRound_length)
next
  show "snd (fetchAllFeeds env fds k) =
       concat (map (\<lambda>f. snd (feedRound env k f)) (filter enabled fds))"
    by (simp add: fetchAllFeeds_def fetchLoop_concat)
next
  assume "0 \<le> k \<and> distinct (map name (filter enabled fds))"
  then show "int (length (filter (\<lambda>i. FeedItem.feedName i = n) (snd (fetchAllFeeds env fds k)))) \<le> k"
    by (simp add: fetchAllFeeds_def fetchLoop_per_name)
next
  assume a: "0 \<le> k \<and> FetchResult.success (fetchFeed env feed)
        \<and> validDates (FetchResult.items (fetchFeed env feed))"
  then have k: "0 \<le> k" and v: "validDates (FetchResult.items (fetchFeed env feed))"
    by simp_all
  from a have s: "snd (feedRound env k feed) =
      js_slice0 k (js_sort byPubDate (FetchResult.items (fetchFeed env feed)))"
    by (simp add: feedRound_snd)
  from kept_most_recent [OF k v]
  show "\<exists>dropped.
          mset (snd (feedRound env k feed) @ dropped) = mset (FetchResult.items (fetchFeed env feed))
          \<and> sorted_wrt (\<lambda>a b. timeOf b \<le> timeOf a) (snd (feedRound env k feed) @ dropped)
          \<and> (\<forall>t. filter (\<lambda>i. timeOf i = t) (snd (feedRound env k feed) @ dropped) =
                    filter (\<lambda>i. timeOf i = t) (FetchResult.items (fetchFeed env feed)))
          \<and> length (snd (feedRound env k feed)) =
              min (nat k) (length (FetchResult.items (fetchFeed env feed)))"
    unfolding s by blast
qed

theorem per_feed_cap_witness:
  "(0::int) \<le> 2
   \<and> distinct (map name (filter enabled [exampleFeed ''A'']))
   \<and> FetchResult.success (fetchFeed
        (exampleEnv (Inr \<lparr>ParserOutput.items =
           [exampleParserItem ''u1'' ''1970-01-01T00:00:00.001Z'',
            exampleParserItem ''u2'' ''1970-01-01T00:00:00.002Z'',
            exampleParserItem ''u3'' ''1970-01-01T00:00:00.003Z''], title = None\<rparr>))
        (exampleFeed ''A''))
   \<and> validDates (FetchResult.items (fetchFeed
        (exampleEnv (Inr \<lparr>ParserOutput.items =
           [exampleParserItem ''u1'' ''1970-01-01T00:00:00.001Z'',
            exampleParserItem ''u2'' ''1970-01-01T00:00:00.002Z'',
            exampleParserItem ''u3'' ''1970-01-01T00:00:00.003Z''], title = None\<rparr>))
        (exampleFeed ''A'')))
   \<and> map FeedItem.link (snd (fetchAllFeeds
        (exampleEnv (Inr \<lparr>ParserOutput.items =
           [exampleParserItem ''u1'' ''1970-01-01T00:00:00.001Z'',
            exampleParserItem ''u2'' ''1970-01-01T00:00:00.002Z'',
            exampleParserItem ''u3'' ''1970-01-01T00:00:00.003Z''], title = None\<rparr>))
        [exampleFeed ''A''] 2)) = [''u3'', ''u2'']"
  using per_feed_cap
    [of 2
        "exampleEnv (Inr \<lparr>ParserOutput.items =
           [exampleParserItem ''u1'' ''1970-01-01T00:00:00.001Z'',
            exampleParserItem ''u2'' ''1970-01-01T00:00:00.002Z'',
            exampleParserItem ''u3'' ''1970-01-01T00:00:00.003Z''], title = None\<rparr>)"
        "exampleFeed ''A''" "[exampleFeed ''A'']" "''A''"]
  by (simp add: fetch_defs eval_defs example_defs validDates_def)

section \<open>Three runs of the model\<close>

text \<open>
  Feed A has items of Monday, Tuesday and Wednesday, feed B one of Sunday; with a
  per-feed cap of two and a total cap of three the final list is Wednesday, Tuesday,
  Sunday with no duplicate; when Wednesday's URL is already processed it is Tuesday,
  Sunday with one duplicate. A feed that times out leaves a failed result, and the run
  still writes the items of the other feed and exits with code 0.
\<close>

lemma scenario_two_sources:
  "map FeedItem.link (snd (fetchAllFeeds scenarioEnv [exampleFeed ''A'', exampleFeed ''B''] 2)) =
     [''wed'', ''tue'', ''sun'']
   \<and> map FeedItem.link
       (sortedItemsOf 3 {} (snd (fetchAllFeeds scenarioEnv [exampleFeed ''A'', exampleFeed ''B''] 2))) =
     [''wed'', ''tue'', ''sun'']
   \<and> duplicatesRemovedOf {}
       (snd (fetchAllFeeds scenarioEnv [exampleFeed ''A'', exampleFeed ''B''] 2)) = 0
   \<and> map FeedItem.link
       (sortedItemsOf 3 {''wed''}
          (snd (fetchAllFeeds scenarioEnv [exampleFeed ''A'', exampleFeed ''B''] 2))) =
     [''tue'', ''sun'']
   \<and> duplicatesRemovedOf {''wed''}
       (snd (fetchAllFeeds scenarioEnv [exampleFeed ''A'', exampleFeed ''B''] 2)) = 1"
  by (simp add: scenarioEnv_def fetch_defs eval_defs example_defs)

lemma scenario_timeout:
  "exitCode (main (exampleHost (exampleConfig 2 3 [exampleFeed ''C'', exampleFeed ''B'']) noError)
       scenarioEnv) = 0
   \<and> map_option (\<lambda>(its, stats, res). (map FeedItem.link its, map FetchResult.success res))
       (written (main (exampleHost (exampleConfig 2 3 [exampleFeed ''C'', exampleFeed ''B'']) noError)
          scenarioEnv)) = Some ([''sun''], [False, True])"
  by (simp add: scenarioEnv_def fetch_defs eval_defs example_defs)

end
